theory Spec2Isabelle
  imports Complex_Main "HOL-Library.Sublist" "HOL-Library.Multiset" "HOL-Library.Option_ord"
begin

section \<open>Python values and failures\<close>

text \<open>
  The exceptions the two scripts can run into. \<open>ReadError\<close> stands for whatever
  \<^verbatim>\<open>Table.read\<close> raises on a file name it cannot read a table of the expected columns
  from (no name given, no such file, another kind of file); \<open>SaveError\<close> for what
  \<^verbatim>\<open>savefig\<close> raises when it is handed no file name. \<^verbatim>\<open>savefig\<close> on a path raises
  \<^verbatim>\<open>FileNotFoundError\<close> when the directory of the path does not exist and
  \<^verbatim>\<open>IsADirectoryError\<close> when the path is a directory.
\<close>

datatype py_error = ValueError | IndexError | TypeError | AttributeError | ReadError | SaveError
  | FileNotFoundError | IsADirectoryError

text \<open>How a call of the main block ends: it falls off the end, it calls \<^verbatim>\<open>sys.exit()\<close>,
  or an exception reaches the top level.\<close>

datatype outcome = Returned | Exited | Raised py_error

definition and_then :: "'e + 'a \<Rightarrow> ('a \<Rightarrow> 'e + 'b) \<Rightarrow> 'e + 'b" where
  "and_then m f = (case m of Inl e \<Rightarrow> Inl e | Inr x \<Rightarrow> f x)"

text \<open>A list comprehension whose body can raise: the first failure, left to right, wins.\<close>

fun map_raise :: "('a \<Rightarrow> 'e + 'b) \<Rightarrow> 'a list \<Rightarrow> 'e + 'b list" where
  "map_raise f [] = Inr []"
| "map_raise f (x # xs) =
     (case f x of Inl e \<Rightarrow> Inl e
      | Inr y \<Rightarrow> (case map_raise f xs of Inl e \<Rightarrow> Inl e | Inr ys \<Rightarrow> Inr (y # ys)))"

text \<open>Truth value of an optional command line string: \<^verbatim>\<open>None\<close> and the empty string
  are false.\<close>

definition truthy :: "string option \<Rightarrow> bool" where
  "truthy a = (case a of None \<Rightarrow> False | Some s \<Rightarrow> s \<noteq> [])"

definition startswith :: "string \<Rightarrow> string \<Rightarrow> bool" where
  "startswith s p = prefix p s"

section \<open>Extended slices\<close>

text \<open>
  \<^verbatim>\<open>xs[start::stride]\<close> on a sequence of length \<open>n\<close>: the indices Python visits.
  A zero step raises; a negative start counts from the end and is clipped; a negative
  step walks down from the start to index 0.
\<close>

definition slice_indices :: "int \<Rightarrow> int \<Rightarrow> nat \<Rightarrow> py_error + nat list" where
  "slice_indices start stride n =
     (if stride = 0 then Inl ValueError
      else if 0 < stride then
        (let s = (if start < 0 then max 0 (start + int n) else min start (int n))
         in Inr (filter (\<lambda>k. s \<le> int k \<and> (int k - s) mod stride = 0) [0..<n]))
      else
        (let s = (if start < 0 then max (- 1) (start + int n) else min start (int n - 1))
         in Inr (rev (filter (\<lambda>k. int k \<le> s \<and> (s - int k) mod (- stride) = 0) [0..<n]))))"

definition py_slice :: "'a list \<Rightarrow> int \<Rightarrow> int \<Rightarrow> py_error + 'a list" where
  "py_slice xs start stride =
     (case slice_indices start stride (length xs) of
        Inl e \<Rightarrow> Inl e
      | Inr ks \<Rightarrow> Inr (map (\<lambda>k. xs ! k) ks))"

text \<open>The indices worker \<open>i\<close> of \<open>nprocs\<close> gets from a table of \<open>n\<close> rows: the scheduler
  passes \<^verbatim>\<open>start=i, stride=nprocs\<close>, and the worker iterates \<^verbatim>\<open>ftab[start::stride]\<close>.\<close>

definition assigned :: "nat \<Rightarrow> nat \<Rightarrow> nat \<Rightarrow> nat set" where
  "assigned nprocs n i =
     (case slice_indices (int i) (int nprocs) n of Inl e \<Rightarrow> {} | Inr ks \<Rightarrow> set ks)"

section \<open>Tables, figures and the world\<close>

text \<open>
  A table cell is a string or a number. Numbers are only compared with 0, compared
  with each other and passed on to the plotting library, never computed with, so a
  finite float is modelled by the real number it denotes.
\<close>

datatype cell = Str string | Num real

text \<open>
  Every row of either table has its identifier, held as the text
  \<^verbatim>\<open>'{}'.format(row['uuid'])\<close> produces. A row of the flux table has one cell for each
  of the table's other columns, in column order; a row of the statistics table has the
  numeric columns the scripts read (\<open>m_slope\<close> is the column \<^verbatim>\<open>m\<close>; \<open>pval_peak_flux\<close> is the
  column \<^verbatim>\<open>pval_peak_flux_ks\<close> of \<^verbatim>\<open>scripts/plot_variables.py\<close> and \<^verbatim>\<open>pval_peak_flux\<close>
  of \<^verbatim>\<open>plot_variables.py\<close>).
\<close>

record source =
  uuid :: string

record flux_row = source +
  cells :: "cell list"

record stats_row = source +
  m_slope :: real
  md :: real
  chisq_peak_flux :: real
  pval_peak_flux :: real
  mean_peak_flux :: real

record flux_table =
  colnames :: "string list"
  rows :: "flux_row list"

type_synonym stats_table = "stats_row list"

text \<open>
  What \<^verbatim>\<open>np.log10\<close> returns on a finite float: the logarithm of a positive number (kept
  symbolic), minus infinity at zero, not-a-number below zero.
\<close>

datatype log10_value = Log10 real | MinusInf | NaN

definition np_log10 :: "real \<Rightarrow> log10_value" where
  "np_log10 x = (if 0 < x then Log10 x else if x = 0 then MinusInf else NaN)"

text \<open>
  The data handed to the plotting library. A light curve is the three sequences given to
  \<^verbatim>\<open>errorbar\<close>, the three numbers formatted into the legend (\<^verbatim>\<open>m\<close>, \<^verbatim>\<open>md\<close>,
  \<^verbatim>\<open>chisq_peak_flux\<close>) and the title. A summary is the sequence of points given to
  \<^verbatim>\<open>scatter\<close>: abscissa \<^verbatim>\<open>md\<close>, ordinate \<^verbatim>\<open>log10(pval)\<close>, colour \<^verbatim>\<open>log10(mean_peak_flux)\<close>.
\<close>

record light_curve =
  x_data :: "cell list"
  y_data :: "cell list"
  y_err :: "cell list"
  legend :: "real \<times> real \<times> real"
  title :: string

record summary =
  points :: "(real \<times> log10_value \<times> log10_value) list"

datatype content = FluxFile flux_table | StatsFile stats_table
  | LightCurveFile light_curve | SummaryFile summary

text \<open>One entry for each call that writes to standard output: \<^verbatim>\<open>print\<close> with the exact
  characters written, or \<^verbatim>\<open>parser.print_help()\<close>.\<close>

datatype out = Print string | Help

text \<open>
  The world a script runs in: the files by path, the directories there are, what has
  been written to standard output so far, and what \<^verbatim>\<open>mp.cpu_count()\<close> returns on the host.
  Two paths are the same file only when they are the same string. The scripts make no
  directory, so the directories stay as they are.
\<close>

record world =
  files :: "string \<rightharpoonup> content"
  dirs :: "string set"
  stdout :: "out list"
  cpu_count :: int

definition print :: "string \<Rightarrow> world \<Rightarrow> world" where
  "print s w = w\<lparr>stdout := stdout w @ [Print s]\<rparr>"

definition print_help :: "world \<Rightarrow> world" where
  "print_help w = w\<lparr>stdout := stdout w @ [Help]\<rparr>"

text \<open>\<^verbatim>\<open>os.path.exists\<close>: a file or a directory of that path.\<close>

definition path_exists :: "world \<Rightarrow> string \<Rightarrow> bool" where
  "path_exists w p = (files w p \<noteq> None \<or> p \<in> dirs w)"

text \<open>
  \<^verbatim>\<open>os.path.dirname\<close>: the path up to its last slash, without the slashes at its end
  unless it consists of slashes. The empty directory name is the current directory,
  which exists.
\<close>

definition dirname :: "string \<Rightarrow> string" where
  "dirname p =
     (let head = rev (dropWhile (\<lambda>c. c \<noteq> CHR ''/'') (rev p));
          stripped = rev (dropWhile (\<lambda>c. c = CHR ''/'') (rev head))
      in if stripped = [] then head else stripped)"

definition dir_exists :: "world \<Rightarrow> string \<Rightarrow> bool" where
  "dir_exists w d = (d = [] \<or> d \<in> dirs w)"

definition write_file :: "string \<Rightarrow> content \<Rightarrow> world \<Rightarrow> world" where
  "write_file p f w = w\<lparr>files := (files w)(p \<mapsto> f)\<rparr>"

text \<open>
  \<^verbatim>\<open>savefig\<close> on a path whose extension names an image format: the file is opened for
  writing, which fails when the path is a directory or its directory does not exist, and
  the figure is written.
\<close>

definition savefig :: "string \<Rightarrow> content \<Rightarrow> world \<Rightarrow> py_error + world" where
  "savefig p f w =
     (if p \<in> dirs w then Inl IsADirectoryError
      else if dir_exists w (dirname p) then Inr (write_file p f w)
      else Inl FileNotFoundError)"

text \<open>
  \<^verbatim>\<open>Table.read\<close>. A file holds a flux table, a statistics table or a figure. Reading
  fails when no name is given, when there is no file of that name and when the file holds
  no table of the kind asked for. A table of the other kind, which the library would read
  and whose missing columns would raise at their first use, is not told apart from these.
\<close>

definition read_flux :: "world \<Rightarrow> string option \<Rightarrow> py_error + flux_table" where
  "read_flux w filename =
     (case filename of
        None \<Rightarrow> Inl ReadError
      | Some p \<Rightarrow> (case files w p of Some (FluxFile t) \<Rightarrow> Inr t | _ \<Rightarrow> Inl ReadError))"

definition read_stats :: "world \<Rightarrow> string option \<Rightarrow> py_error + stats_table" where
  "read_stats w filename =
     (case filename of
        None \<Rightarrow> Inl ReadError
      | Some p \<Rightarrow> (case files w p of Some (StatsFile t) \<Rightarrow> Inr t | _ \<Rightarrow> Inl ReadError))"

section \<open>\<^verbatim>\<open>scripts/plot_variables.py\<close>\<close>

subsection \<open>\<^verbatim>\<open>plot_summary_table\<close>\<close>

text \<open>Every row of the table goes into the scatter call; the figure is saved at
  \<^verbatim>\<open>plotfile\<close>, taken to name an image format by its extension.\<close>

definition plot_summary_table ::
  "string option \<Rightarrow> string option \<Rightarrow> world \<Rightarrow> world \<times> py_error option" where
  "plot_summary_table filename plotfile w =
     (case read_stats w filename of
        Inl e \<Rightarrow> (w, Some e)
      | Inr tab \<Rightarrow>
          (let fig = \<lparr>points = map (\<lambda>r. (md r, np_log10 (pval_peak_flux r),
                                         np_log10 (mean_peak_flux r))) tab\<rparr>
           in case plotfile of
                None \<Rightarrow> (w, Some SaveError)
              | Some p \<Rightarrow>
                  (case savefig p (SummaryFile fig) w of
                     Inl e \<Rightarrow> (w, Some e)
                   | Inr w1 \<Rightarrow> (w1, None))))"

subsection \<open>\<^verbatim>\<open>plot_lc_table\<close>\<close>

text \<open>
  \<^verbatim>\<open>datetime.datetime.strptime(a, "%Y-%m-%dT%H:%M:%S")\<close> is a parameter \<open>strptime\<close> of the
  model: a label either has a timestamp or does not match (\<^verbatim>\<open>ValueError\<close>). Timestamps
  are linearly ordered. A cell that is not a string is a \<^verbatim>\<open>TypeError\<close>.
\<close>

definition strptime_cell :: "(string \<Rightarrow> 't option) \<Rightarrow> cell \<Rightarrow> py_error + 't" where
  "strptime_cell strptime a =
     (case a of
        Num x \<Rightarrow> Inl TypeError
      | Str s \<Rightarrow> (case strptime s of None \<Rightarrow> Inl ValueError | Some t \<Rightarrow> Inr t))"

text \<open>The sort key of line 95. The sort runs only after line 93 has parsed every epoch
  cell of the row, so the key is never \<open>None\<close> there.\<close>

definition sort_time :: "(string \<Rightarrow> 't option) \<Rightarrow> cell \<Rightarrow> 't option" where
  "sort_time strptime a = (case strptime_cell strptime a of Inl e \<Rightarrow> None | Inr t \<Rightarrow> Some t)"

text \<open>Lines 81 to 83: the names of the columns of one family.\<close>

definition column_names :: "flux_table \<Rightarrow> string \<Rightarrow> string list" where
  "column_names ftab p = filter (\<lambda>a. startswith a p) (colnames ftab)"

text \<open>\<^verbatim>\<open>list(row[names])\<close>: the cells of the named columns; an empty list of names is
  refused by the table library.\<close>

definition row_getitem :: "flux_table \<Rightarrow> flux_row \<Rightarrow> string list \<Rightarrow> py_error + cell list" where
  "row_getitem ftab row names =
     (if names = [] then Inl IndexError
      else Inr (map snd (filter (\<lambda>(a, c). a \<in> set names) (zip (colnames ftab) (cells row)))))"

definition lc_fname :: "string \<Rightarrow> string \<Rightarrow> string" where
  "lc_fname plot_dir u = plot_dir @ ''/'' @ u @ ''.png''"

text \<open>Line 94: the triples of a row, in column order.\<close>

definition zipped_list :: "cell list \<Rightarrow> cell list \<Rightarrow> cell list \<Rightarrow> (cell \<times> cell \<times> cell) list" where
  "zipped_list es fs errs = zip es (zip fs errs)"

text \<open>Lines 90 to 111 for one row that is not skipped: the figure, or the exception.\<close>

definition light_curve_of ::
  "(string \<Rightarrow> 't::linorder option) \<Rightarrow> flux_table \<Rightarrow> stats_table \<Rightarrow> flux_row
     \<Rightarrow> py_error + light_curve" where
  "light_curve_of strptime ftab stab row =
     (let srow = filter (\<lambda>s. uuid s = uuid row) stab in
      and_then (row_getitem ftab row (column_names ftab ''epoch'')) (\<lambda>es.
      and_then (map_raise (strptime_cell strptime) es) (\<lambda>these_epochs.
      and_then (row_getitem ftab row (column_names ftab ''peak_flux'')) (\<lambda>fs.
      and_then (row_getitem ftab row (column_names ftab ''err_peak_flux'')) (\<lambda>errs.
        (let sorted_list = sort_key (\<lambda>t. sort_time strptime (fst t)) (zipped_list es fs errs)
         in if sorted_list = [] then Inl ValueError
            else (case srow of
                    [] \<Rightarrow> Inl IndexError
                  | s # more_rows \<Rightarrow>
                      Inr \<lparr>x_data = map fst sorted_list,
                           y_data = map (\<lambda>t. fst (snd t)) sorted_list,
                           y_err = map (\<lambda>t. snd (snd t)) sorted_list,
                           legend = (m_slope s, md s, chisq_peak_flux s),
                           title = uuid row\<rparr>)))))))"

text \<open>The loop of lines 84 to 114 over the rows of the slice. An exception ends the
  loop at once and leaves the world as it was when it was raised.\<close>

fun lc_rows ::
  "(string \<Rightarrow> 't::linorder option) \<Rightarrow> flux_table \<Rightarrow> stats_table \<Rightarrow> string
     \<Rightarrow> flux_row list \<Rightarrow> world \<Rightarrow> world \<times> py_error option" where
  "lc_rows strptime ftab stab plot_dir [] w = (w, None)"
| "lc_rows strptime ftab stab plot_dir (row # rest) w =
     (let fname = lc_fname plot_dir (uuid row);
          w1 = print fname w
      in if path_exists w1 fname
         then lc_rows strptime ftab stab plot_dir rest (print '' ... skip\<newline>'' w1)
         else (case light_curve_of strptime ftab stab row of
                 Inl e \<Rightarrow> (w1, Some e)
               | Inr fig \<Rightarrow>
                   (case savefig fname (LightCurveFile fig) w1 of
                      Inl e \<Rightarrow> (w1, Some e)
                    | Inr w2 \<Rightarrow>
                        lc_rows strptime ftab stab plot_dir rest
                          (print '' ... done\<newline>'' w2))))"

definition plot_lc_table ::
  "(string \<Rightarrow> 't::linorder option) \<Rightarrow> string option \<Rightarrow> string option \<Rightarrow> int \<Rightarrow> int
     \<Rightarrow> string \<Rightarrow> world \<Rightarrow> world \<times> py_error option" where
  "plot_lc_table strptime flux_table stats_table start stride plot_dir w =
     (case read_flux w flux_table of
        Inl e \<Rightarrow> (w, Some e)
      | Inr ftab \<Rightarrow>
          (case read_stats w stats_table of
             Inl e \<Rightarrow> (w, Some e)
           | Inr stab \<Rightarrow>
               (case py_slice (rows ftab) start stride of
                  Inl e \<Rightarrow> (w, Some e)
                | Inr rs \<Rightarrow> lc_rows strptime ftab stab plot_dir rs w)))"

subsection \<open>\<^verbatim>\<open>plot_lc_table_parallel\<close>\<close>

text \<open>
  The pool refuses a process count below 1. Each job is \<^verbatim>\<open>plot_lc_table\<close> with
  \<^verbatim>\<open>start=i, stride=nprocs\<close>; the result object of \<^verbatim>\<open>apply_async\<close> is dropped, so an
  exception of a job is never read. The jobs are run here one after the other in the
  order of their submission, one of the schedules of the pool.
\<close>

definition plot_lc_table_parallel ::
  "(string \<Rightarrow> 't::linorder option) \<Rightarrow> string option \<Rightarrow> string option \<Rightarrow> string \<Rightarrow> int
     \<Rightarrow> world \<Rightarrow> world \<times> py_error option" where
  "plot_lc_table_parallel strptime flux_table stats_table light_curve_dir nprocs w =
     (if nprocs < 1 then (w, Some ValueError)
      else (fold (\<lambda>i w'. fst (plot_lc_table strptime flux_table stats_table (int i) nprocs
                                 light_curve_dir w'))
                 [0..<nat nprocs] w, None))"

section \<open>\<^verbatim>\<open>plot_variables.py\<close>, the script with the database path\<close>

text \<open>
  The functions of this older script are prefixed \<open>db_\<close> where the newer script has a
  function of the same name. The cursor \<^verbatim>\<open>cur\<close> is modelled by the rows of the table
  \<^verbatim>\<open>stats\<close> it selects from.
\<close>

subsection \<open>\<^verbatim>\<open>plot_summary\<close>\<close>

text \<open>
  Lines 30 to 33: the query keeps the rows \<^verbatim>\<open>WHERE pval_peak_flux > 0\<close> and selects
  \<^verbatim>\<open>pval_peak_flux, md, abs(mean_peak_flux)\<close>; unpacking the transposed rows into three
  names fails when no row is left.
\<close>

definition select_stats :: "stats_table \<Rightarrow> (real \<times> real \<times> real) list" where
  "select_stats cur =
     map (\<lambda>r. (pval_peak_flux r, md r, \<bar>mean_peak_flux r\<bar>))
         (filter (\<lambda>r. pval_peak_flux r > 0) cur)"

definition plot_summary ::
  "stats_table \<Rightarrow> string option \<Rightarrow> world \<Rightarrow> world \<times> py_error option" where
  "plot_summary cur plotfile w =
     (let selected = select_stats cur
      in if selected = [] then (w, Some ValueError)
         else (let fig = \<lparr>points = map (\<lambda>(p, d, f). (d, np_log10 p, np_log10 f)) selected\<rparr>
               in case plotfile of
                    None \<Rightarrow> (w, Some SaveError)
                  | Some p \<Rightarrow>
                      (case savefig p (SummaryFile fig) w of
                         Inl e \<Rightarrow> (w, Some e)
                       | Inr w1 \<Rightarrow> (w1, None))))"

subsection \<open>\<^verbatim>\<open>plot_summary_table\<close> and \<^verbatim>\<open>plot_lc_table\<close>\<close>

definition db_plot_summary_table ::
  "string option \<Rightarrow> string option \<Rightarrow> world \<Rightarrow> world \<times> py_error option" where
  "db_plot_summary_table filename plotfile w =
     (case read_stats w filename of
        Inl e \<Rightarrow> (w, Some e)
      | Inr tab \<Rightarrow>
          (let fig = \<lparr>points = map (\<lambda>r. (md r, np_log10 (pval_peak_flux r),
                                         np_log10 (mean_peak_flux r))) tab\<rparr>
           in case plotfile of
                None \<Rightarrow> (w, Some SaveError)
              | Some p \<Rightarrow>
                  (case savefig p (SummaryFile fig) w of
                     Inl e \<Rightarrow> (w, Some e)
                   | Inr w1 \<Rightarrow> (w1, None))))"

text \<open>Lines 164 to 173 for one row that is not skipped: the abscissae are the indices
  of the flux columns, nothing is parsed or sorted.\<close>

definition db_light_curve_of :: "flux_table \<Rightarrow> stats_table \<Rightarrow> flux_row \<Rightarrow> py_error + light_curve" where
  "db_light_curve_of ftab stab row =
     (let fluxes = column_names ftab ''peak_flux'';
          epoch = map (\<lambda>k. Num (real k)) [0..<length fluxes];
          srow = filter (\<lambda>s. uuid s = uuid row) stab
      in case srow of
           [] \<Rightarrow> Inl IndexError
         | s # more_rows \<Rightarrow>
             and_then (row_getitem ftab row fluxes) (\<lambda>fs.
             and_then (row_getitem ftab row (column_names ftab ''err_peak_flux'')) (\<lambda>errs.
               Inr \<lparr>x_data = epoch, y_data = fs, y_err = errs,
                    legend = (m_slope s, md s, chisq_peak_flux s),
                    title = uuid row\<rparr>)))"

fun db_lc_rows ::
  "flux_table \<Rightarrow> stats_table \<Rightarrow> flux_row list \<Rightarrow> world \<Rightarrow> world \<times> py_error option" where
  "db_lc_rows ftab stab [] w = (w, None)"
| "db_lc_rows ftab stab (row # rest) w =
     (let fname = ''plots/'' @ uuid row @ ''.png'';
          w1 = print fname w
      in if path_exists w1 fname
         then db_lc_rows ftab stab rest (print '' ... skip\<newline>'' w1)
         else (case db_light_curve_of ftab stab row of
                 Inl e \<Rightarrow> (w1, Some e)
               | Inr fig \<Rightarrow>
                   (case savefig fname (LightCurveFile fig) w1 of
                      Inl e \<Rightarrow> (w1, Some e)
                    | Inr w2 \<Rightarrow>
                        db_lc_rows ftab stab rest (print '' ... done\<newline>'' w2))))"

definition db_plot_lc_table ::
  "string option \<Rightarrow> string option \<Rightarrow> world \<Rightarrow> world \<times> py_error option" where
  "db_plot_lc_table flux_table stats_table w =
     (case read_flux w flux_table of
        Inl e \<Rightarrow> (w, Some e)
      | Inr ftab \<Rightarrow>
          (case read_stats w stats_table of
             Inl e \<Rightarrow> (w, Some e)
           | Inr stab \<Rightarrow> db_lc_rows ftab stab (rows ftab) w))"

section \<open>A timestamp parser for the examples\<close>

text \<open>
  The theorems below hold for every \<open>strptime\<close>. The examples are evaluated with this
  one: it accepts exactly the labels \<^verbatim>\<open>dddd-dd-ddTdd:dd:dd\<close> of decimal digits whose month,
  day, hour, minute and second are in range, and returns the number \<^verbatim>\<open>YYYYmmddHHMMSS\<close>,
  which orders the accepted labels as the dates they denote. The parser of the library
  accepts more (fields without the leading zero, a lowercase \<^verbatim>\<open>t\<close>) and agrees with this
  one on the labels of the examples.
\<close>

definition digit :: "char \<Rightarrow> nat option" where
  "digit c = (let k = (of_char c :: nat) in if 48 \<le> k \<and> k \<le> 57 then Some (k - 48) else None)"

fun digits :: "string \<Rightarrow> nat option" where
  "digits [] = Some 0"
| "digits (c # cs) =
     (case digit c of
        None \<Rightarrow> None
      | Some d \<Rightarrow> (case digits cs of None \<Rightarrow> None | Some r \<Rightarrow> Some (d * 10 ^ length cs + r)))"

definition days_in_month :: "nat \<Rightarrow> nat \<Rightarrow> nat" where
  "days_in_month y mo =
     (if mo = 2 then (if y mod 4 = 0 \<and> (y mod 100 \<noteq> 0 \<or> y mod 400 = 0) then 29 else 28)
      else if mo = 4 \<or> mo = 6 \<or> mo = 9 \<or> mo = 11 then 30 else 31)"

definition digits_at :: "string \<Rightarrow> nat \<Rightarrow> nat \<Rightarrow> nat option" where
  "digits_at a k n = digits (take n (drop k a))"

definition strptime_fixed :: "string \<Rightarrow> int option" where
  "strptime_fixed a =
     (if length a = 19 \<and> a ! 4 = CHR ''-'' \<and> a ! 7 = CHR ''-'' \<and> a ! 10 = CHR ''T''
         \<and> a ! 13 = CHR '':'' \<and> a ! 16 = CHR '':''
      then
        Option.bind (digits_at a 0 4) (\<lambda>y.
        Option.bind (digits_at a 5 2) (\<lambda>mo.
        Option.bind (digits_at a 8 2) (\<lambda>d.
        Option.bind (digits_at a 11 2) (\<lambda>h.
        Option.bind (digits_at a 14 2) (\<lambda>mi.
        Option.bind (digits_at a 17 2) (\<lambda>s.
          if 1 \<le> y \<and> 1 \<le> mo \<and> mo \<le> 12 \<and> 1 \<le> d \<and> d \<le> days_in_month y mo
             \<and> h \<le> 23 \<and> mi \<le> 59 \<and> s \<le> 59
          then Some (((((int y * 100 + int mo) * 100 + int d) * 100 + int h) * 100 + int mi) * 100
                     + int s)
          else None))))))
      else None)"

section \<open>The main blocks\<close>

subsection \<open>\<^verbatim>\<open>scripts/plot_variables.py\<close>\<close>

record table_args =
  ftable :: "string option"
  stable :: "string option"
  plotfile :: "string option"
  all :: bool

record args = table_args +
  light_curve_dir :: string
  dates :: bool
  cores :: "int option"

definition error_message :: string where
  "error_message = ''ERROR: --stable and --ftable are both required, only one supplied.\<newline>''"

definition main ::
  "(string \<Rightarrow> 't::linorder option) \<Rightarrow> args \<Rightarrow> world \<Rightarrow> world \<times> outcome" where
  "main strptime results w =
     (let nprocs = (case cores results of None \<Rightarrow> cpu_count w | Some n \<Rightarrow> n) in
      if truthy (ftable results) \<or> truthy (stable results) then
        (let w1 = (if \<not> (truthy (ftable results) \<and> truthy (stable results))
                   then print error_message w else w)
         in case plot_summary_table (stable results) (plotfile results) w1 of
              (w2, Some e) \<Rightarrow> (w2, Raised e)
            | (w2, None) \<Rightarrow>
                if all results then
                  (case plot_lc_table_parallel strptime (ftable results) (stable results)
                          (light_curve_dir results) nprocs w2 of
                     (w3, Some e) \<Rightarrow> (w3, Raised e)
                   | (w3, None) \<Rightarrow> (w3, Returned))
                else (w2, Returned))
      else (print_help w, Exited))"

subsection \<open>\<^verbatim>\<open>plot_variables.py\<close>\<close>

text \<open>
  The parser stores \<^verbatim>\<open>--dbname\<close> under \<^verbatim>\<open>db\<close> and defines neither \<^verbatim>\<open>name\<close> nor
  \<^verbatim>\<open>dates\<close>. The first statement of the database branch evaluates \<^verbatim>\<open>results.name\<close>.
\<close>

record db_args = table_args +
  db :: "string option"

definition db_main :: "db_args \<Rightarrow> world \<Rightarrow> world \<times> outcome" where
  "db_main results w =
     (if truthy (db results) then (w, Raised AttributeError)
      else if truthy (ftable results) \<or> truthy (stable results) then
        (let w1 = (if \<not> (truthy (ftable results) \<and> truthy (stable results))
                   then print error_message w else w)
         in case db_plot_summary_table (stable results) (plotfile results) w1 of
              (w2, Some e) \<Rightarrow> (w2, Raised e)
            | (w2, None) \<Rightarrow>
                if all results then
                  (case db_plot_lc_table (ftable results) (stable results) w2 of
                     (w3, Some e) \<Rightarrow> (w3, Raised e)
                   | (w3, None) \<Rightarrow> (w3, Returned))
                else (w2, Returned))
      else (print_help w, Exited))"

section \<open>Auxiliary notions for the statements\<close>

text \<open>What a run of the loop prints when it skips every row of \<open>rs\<close>.\<close>

definition skip_lines :: "string \<Rightarrow> flux_row list \<Rightarrow> out list" where
  "skip_lines plot_dir rs =
     concat (map (\<lambda>row. [Print (lc_fname plot_dir (uuid row)), Print '' ... skip\<newline>'']) rs)"



section \<open>Example tables\<close>

text \<open>
  A flux table of two epochs. Source \<open>a\<close> has its epochs stored out of order, \<open>b\<close> has a
  label that is no timestamp, \<open>c\<close> has no row in the statistics table, \<open>d\<close> and \<open>e\<close> are in
  order. The directory \<^verbatim>\<open>plots\<close> exists, no other does.
\<close>

definition example_colnames :: "string list" where
  "example_colnames = [''epoch_0'', ''epoch_1'', ''peak_flux_0'', ''peak_flux_1'',
                       ''err_peak_flux_0'', ''err_peak_flux_1'']"

definition row_a :: flux_row where
  "row_a = \<lparr>uuid = ''a'', cells = [Str ''2020-05-30T00:00:00'', Str ''2020-05-29T12:00:00'',
                                   Num 1, Num 2, Num 0.1, Num 0.2]\<rparr>"

definition row_b :: flux_row where
  "row_b = \<lparr>uuid = ''b'', cells = [Str ''2020-05-29T12:00:00'', Str ''yesterday'',
                                   Num 3, Num 4, Num 0.3, Num 0.4]\<rparr>"

definition row_c :: flux_row where
  "row_c = \<lparr>uuid = ''c'', cells = [Str ''2020-05-29T12:00:00'', Str ''2020-05-30T00:00:00'',
                                   Num 5, Num 6, Num 0.5, Num 0.6]\<rparr>"

definition row_d :: flux_row where
  "row_d = \<lparr>uuid = ''d'', cells = [Str ''2020-05-29T12:00:00'', Str ''2020-05-30T00:00:00'',
                                   Num 7, Num 8, Num 0.7, Num 0.8]\<rparr>"

definition row_e :: flux_row where
  "row_e = \<lparr>uuid = ''e'', cells = [Str ''2020-05-29T12:00:00'', Str ''2020-05-30T00:00:00'',
                                   Num 9, Num 10, Num 0.9, Num 1]\<rparr>"

definition example_ftab :: "flux_row list \<Rightarrow> flux_table" where
  "example_ftab rs = \<lparr>colnames = example_colnames, rows = rs\<rparr>"

text \<open>A statistics table with the p-values 0.5, -1, 0.001 and 0; the third source has a
  negative mean flux.\<close>

definition stats_of :: "string \<Rightarrow> real \<Rightarrow> real \<Rightarrow> stats_row" where
  "stats_of u p f = \<lparr>uuid = u, m_slope = 0.1, md = 0.02, chisq_peak_flux = 1.5,
                     pval_peak_flux = p, mean_peak_flux = f\<rparr>"

definition example_stab :: stats_table where
  "example_stab = [stats_of ''a'' 0.5 1, stats_of ''b'' (- 1) 1, stats_of ''d'' 0.001 (- 2),
                   stats_of ''e'' 0 1]"

definition example_world :: "flux_row list \<Rightarrow> world" where
  "example_world rs =
     \<lparr>files = [''flux.fits'' \<mapsto> FluxFile (example_ftab rs),
               ''stats.fits'' \<mapsto> StatsFile example_stab],
      dirs = {''plots''}, stdout = [], cpu_count = 4\<rparr>"

text \<open>The figures of the rows \<open>a\<close> and \<open>d\<close>.\<close>

definition figure_a :: light_curve where
  "figure_a = \<lparr>x_data = [Str ''2020-05-29T12:00:00'', Str ''2020-05-30T00:00:00''],
                y_data = [Num 2, Num 1], y_err = [Num 0.2, Num 0.1],
                legend = (0.1, 0.02, 1.5), title = ''a''\<rparr>"

definition figure_d :: light_curve where
  "figure_d = \<lparr>x_data = [Str ''2020-05-29T12:00:00'', Str ''2020-05-30T00:00:00''],
                y_data = [Num 7, Num 8], y_err = [Num 0.7, Num 0.8],
                legend = (0.1, 0.02, 1.5), title = ''d''\<rparr>"

definition figure_e :: light_curve where
  "figure_e = \<lparr>x_data = [Str ''2020-05-29T12:00:00'', Str ''2020-05-30T00:00:00''],
                y_data = [Num 9, Num 10], y_err = [Num 0.9, Num 1],
                legend = (0.1, 0.02, 1.5), title = ''e''\<rparr>"


text \<open>The summary figure of the example statistics table as \<^verbatim>\<open>plot_summary_table\<close> makes
  it, and command lines: both tables and \<^verbatim>\<open>--all\<close> without \<^verbatim>\<open>--cores\<close>; only the flux table;
  only the statistics table, for either script; a database.\<close>

definition example_summary :: summary where
  "example_summary = \<lparr>points = [(0.02, Log10 0.5, Log10 1), (0.02, NaN, Log10 1),
                                (0.02, Log10 0.001, NaN), (0.02, MinusInf, Log10 1)]\<rparr>"

definition example_args :: args where
  "example_args = \<lparr>ftable = Some ''flux.fits'', stable = Some ''stats.fits'',
                    plotfile = Some ''summary.png'', all = True,
                    light_curve_dir = ''plots'', dates = False, cores = None\<rparr>"





definition dbname_args :: db_args where
  "dbname_args = \<lparr>ftable = None, stable = None, plotfile = Some ''summary.png'', all = True,
                   db = Some ''robbie.db''\<rparr>"

text \<open>One worker over the whole table, writing below \<^verbatim>\<open>plots\<close>.\<close>

definition example_run :: "world \<Rightarrow> world \<times> py_error option" where
  "example_run = plot_lc_table strptime_fixed (Some ''flux.fits'') (Some ''stats.fits'') 0 1 ''plots''"

section \<open>The start/stride assignment\<close>

lemma stride_hit_iff:
  fixes i N k :: nat
  assumes "i < N"
  shows "(int i \<le> int k \<and> (int k - int i) mod int N = 0) \<longleftrightarrow> k mod N = i"
proof
  assume "int i \<le> int k \<and> (int k - int i) mod int N = 0"
  then have "int N dvd int k - int i" by (simp add: dvd_eq_mod_eq_0)
  then have "int k mod int N = int i mod int N" by (simp add: mod_eq_dvd_iff)
  then have "int (k mod N) = int (i mod N)" by (simp add: zmod_int)
  then show "k mod N = i" using assms by simp
next
  assume h: "k mod N = i"
  have le: "i \<le> k" using h mod_less_eq_dividend [of k N] by simp
  have "int k mod int N = int i mod int N" using h assms by (simp flip: zmod_int)
  then have "int N dvd int k - int i" by (simp add: mod_eq_dvd_iff)
  then show "int i \<le> int k \<and> (int k - int i) mod int N = 0"
    using le by (simp add: dvd_eq_mod_eq_0)
qed

lemma slice_hit_iff:
  assumes "i < N" and "k < n"
  shows "(min (int i) (int n) \<le> int k \<and> (int k - min (int i) (int n)) mod int N = 0)
           \<longleftrightarrow> k mod N = i"
proof (cases "i \<le> n")
  case True
  then have "min (int i) (int n) = int i" by simp
  then show ?thesis using stride_hit_iff [OF assms(1), of k] by simp
next
  case False
  then have m: "min (int i) (int n) = int n" by simp
  have "k mod N \<le> k" by simp
  then have "k mod N \<noteq> i" using False assms(2) by linarith
  then show ?thesis using assms(2) by (simp add: m)
qed

lemma slice_indices_worker:
  assumes "i < N"
  shows "slice_indices (int i) (int N) n = Inr (filter (\<lambda>k. k mod N = i) [0..<n])"
proof -
  have "filter (\<lambda>k. min (int i) (int n) \<le> int k
                     \<and> (int k - min (int i) (int n)) mod int N = 0) [0..<n]
          = filter (\<lambda>k. k mod N = i) [0..<n]"
    by (rule filter_cong) (use slice_hit_iff [OF assms] in auto)
  then show ?thesis using assms by (simp add: slice_indices_def)
qed

lemma assigned_iff:
  assumes "i < N"
  shows "k \<in> assigned N n i \<longleftrightarrow> k < n \<and> k mod N = i"
  by (auto simp add: assigned_def slice_indices_worker [OF assms])

lemma assigned_cover: "0 < N \<Longrightarrow> (\<Union>i<N. assigned N n i) = {..<n}"
  by (auto simp add: assigned_iff)

lemma assigned_disjoint:
  "i < N \<Longrightarrow> j < N \<Longrightarrow> i \<noteq> j \<Longrightarrow> assigned N n i \<inter> assigned N n j = {}"
  by (auto simp add: assigned_iff)

lemma assigned_filter:
  assumes "i < N"
  shows "filter (\<lambda>k. k \<in> assigned N n i) [0..<n] = filter (\<lambda>k. k mod N = i) [0..<n]"
  by (rule filter_cong) (auto simp add: assigned_iff [OF assms])

lemma py_slice_worker:
  assumes "i < N"
  shows "py_slice xs (int i) (int N)
           = Inr (map (\<lambda>k. xs ! k) (filter (\<lambda>k. k \<in> assigned N (length xs) i) [0..<length xs]))"
  by (simp add: py_slice_def slice_indices_worker [OF assms] assigned_filter [OF assms])

lemma mset_concat_classes:
  assumes "distinct cs"
  shows "mset (concat (map (\<lambda>c. filter (\<lambda>x. f x = c) xs) cs)) = mset (filter (\<lambda>x. f x \<in> set cs) xs)"
  using assms
proof (induction cs)
  case Nil
  then show ?case by simp
next
  case (Cons c cs)
  have "mset (filter (\<lambda>x. f x = c) xs) + mset (filter (\<lambda>x. f x \<in> set cs) xs)
          = mset (filter (\<lambda>x. f x = c \<or> f x \<in> set cs) xs)"
    using Cons.prems by (induction xs) auto
  with Cons show ?case by simp
qed

lemma mset_workers:
  assumes "0 < N"
  shows "mset (concat (map (\<lambda>i. map (\<lambda>k. xs ! k)
                 (filter (\<lambda>k. k \<in> assigned N (length xs) i) [0..<length xs])) [0..<N]))
           = mset xs"
proof -
  let ?n = "length xs"
  have "map (\<lambda>i. map (\<lambda>k. xs ! k) (filter (\<lambda>k. k \<in> assigned N ?n i) [0..<?n])) [0..<N]
          = map (\<lambda>i. map (\<lambda>k. xs ! k) (filter (\<lambda>k. k mod N = i) [0..<?n])) [0..<N]"
    by (rule map_cong) (simp_all add: assigned_filter)
  then have "concat (map (\<lambda>i. map (\<lambda>k. xs ! k) (filter (\<lambda>k. k \<in> assigned N ?n i) [0..<?n]))
                 [0..<N])
          = concat (map (\<lambda>i. map (\<lambda>k. xs ! k) (filter (\<lambda>k. k mod N = i) [0..<?n])) [0..<N])"
    by (rule arg_cong)
  also have "\<dots> = map (\<lambda>k. xs ! k) (concat (map (\<lambda>i. filter (\<lambda>k. k mod N = i) [0..<?n]) [0..<N]))"
    by (simp add: map_concat comp_def)
  finally have "concat (map (\<lambda>i. map (\<lambda>k. xs ! k) (filter (\<lambda>k. k \<in> assigned N ?n i) [0..<?n]))
                 [0..<N])
          = map (\<lambda>k. xs ! k) (concat (map (\<lambda>i. filter (\<lambda>k. k mod N = i) [0..<?n]) [0..<N]))" .
  moreover have "mset (concat (map (\<lambda>i. filter (\<lambda>k. k mod N = i) [0..<?n]) [0..<N]))
          = mset [0..<?n]"
    using mset_concat_classes [of "[0..<N]" "\<lambda>k. k mod N" "[0..<?n]"] assms by simp
  ultimately have "mset (concat (map (\<lambda>i. map (\<lambda>k. xs ! k)
                 (filter (\<lambda>k. k \<in> assigned N ?n i) [0..<?n])) [0..<N]))
          = image_mset (\<lambda>k. xs ! k) (mset [0..<?n])"
    by (metis mset_map)
  also have "\<dots> = mset (map (\<lambda>k. xs ! k) [0..<?n])" by simp
  also have "\<dots> = mset xs" by (simp add: map_nth)
  finally show ?thesis .
qed

section \<open>The loop over the rows\<close>

lemma files_print [simp]: "files (print s w) = files w"
  by (simp add: print_def)

lemma dirs_print [simp]: "dirs (print s w) = dirs w"
  by (simp add: print_def)

lemma stdout_print [simp]: "stdout (print s w) = stdout w @ [Print s]"
  by (simp add: print_def)

lemma cpu_count_print [simp]: "cpu_count (print s w) = cpu_count w"
  by (simp add: print_def)

lemma files_write_file [simp]: "files (write_file p f w) = (files w)(p \<mapsto> f)"
  by (simp add: write_file_def)

lemma dirs_write_file [simp]: "dirs (write_file p f w) = dirs w"
  by (simp add: write_file_def)

lemma stdout_write_file [simp]: "stdout (write_file p f w) = stdout w"
  by (simp add: write_file_def)

lemma cpu_count_write_file [simp]: "cpu_count (write_file p f w) = cpu_count w"
  by (simp add: write_file_def)

lemma path_exists_print [simp]: "path_exists (print s w) p = path_exists w p"
  by (simp add: path_exists_def)

lemma dir_exists_print [simp]: "dir_exists (print s w) d = dir_exists w d"
  by (simp add: dir_exists_def)


lemma savefig_Inl:
  "savefig p f w = Inl e \<longleftrightarrow>
     (p \<in> dirs w \<and> e = IsADirectoryError)
     \<or> (p \<notin> dirs w \<and> \<not> dir_exists w (dirname p) \<and> e = FileNotFoundError)"
  by (auto simp add: savefig_def)

lemma savefig_missing_dir:
  "\<not> path_exists w p \<Longrightarrow> \<not> dir_exists w (dirname p) \<Longrightarrow> savefig p f w = Inl FileNotFoundError"
  by (simp add: savefig_def path_exists_def)

lemma savefig_fresh:
  "\<not> path_exists w p \<Longrightarrow> dir_exists w (dirname p) \<Longrightarrow> savefig p f w = Inr (write_file p f w)"
  by (simp add: savefig_def path_exists_def)

lemma savefig_Inl_dirs:
  "savefig p f w = Inl e \<Longrightarrow> dirs w2 = dirs w \<Longrightarrow> savefig p f2 w2 = Inl e"
  by (auto simp add: savefig_def dir_exists_def split: if_splits)

lemma lc_rows_skip:
  "path_exists w (lc_fname plot_dir (uuid row)) \<Longrightarrow>
   lc_rows P ftab stab plot_dir (row # rest) w =
     lc_rows P ftab stab plot_dir rest
       (print '' ... skip\<newline>'' (print (lc_fname plot_dir (uuid row)) w))"
  by (simp add: Let_def)

lemma lc_rows_raise:
  "\<not> path_exists w (lc_fname plot_dir (uuid row)) \<Longrightarrow> light_curve_of P ftab stab row = Inl e \<Longrightarrow>
   lc_rows P ftab stab plot_dir (row # rest) w = (print (lc_fname plot_dir (uuid row)) w, Some e)"
  by (simp add: Let_def)

lemma lc_rows_unsaved:
  "\<not> path_exists w (lc_fname plot_dir (uuid row)) \<Longrightarrow> light_curve_of P ftab stab row = Inr fig \<Longrightarrow>
   savefig (lc_fname plot_dir (uuid row)) (LightCurveFile fig)
     (print (lc_fname plot_dir (uuid row)) w) = Inl e \<Longrightarrow>
   lc_rows P ftab stab plot_dir (row # rest) w = (print (lc_fname plot_dir (uuid row)) w, Some e)"
  by (simp add: Let_def)

lemma lc_rows_done:
  "\<not> path_exists w (lc_fname plot_dir (uuid row)) \<Longrightarrow> light_curve_of P ftab stab row = Inr fig \<Longrightarrow>
   savefig (lc_fname plot_dir (uuid row)) (LightCurveFile fig)
     (print (lc_fname plot_dir (uuid row)) w) = Inr w2 \<Longrightarrow>
   lc_rows P ftab stab plot_dir (row # rest) w =
     lc_rows P ftab stab plot_dir rest (print '' ... done\<newline>'' w2)"
  by (simp add: Let_def)

declare lc_rows.simps(2) [simp del]

lemma lc_rows_Cons_cases:
  fixes row :: flux_row
  obtains (skip) "path_exists w (lc_fname plot_dir (uuid row))"
      "lc_rows P ftab stab plot_dir (row # rest) w =
         lc_rows P ftab stab plot_dir rest
           (print '' ... skip\<newline>'' (print (lc_fname plot_dir (uuid row)) w))"
  | (raise) e where "\<not> path_exists w (lc_fname plot_dir (uuid row))"
      "light_curve_of P ftab stab row = Inl e"
      "lc_rows P ftab stab plot_dir (row # rest) w
         = (print (lc_fname plot_dir (uuid row)) w, Some e)"
  | (unsaved) fig where "\<not> path_exists w (lc_fname plot_dir (uuid row))"
      "light_curve_of P ftab stab row = Inr fig"
      "\<not> dir_exists w (dirname (lc_fname plot_dir (uuid row)))"
      "lc_rows P ftab stab plot_dir (row # rest) w
         = (print (lc_fname plot_dir (uuid row)) w, Some FileNotFoundError)"
  | (saved) fig where "\<not> path_exists w (lc_fname plot_dir (uuid row))"
      "light_curve_of P ftab stab row = Inr fig"
      "dir_exists w (dirname (lc_fname plot_dir (uuid row)))"
      "lc_rows P ftab stab plot_dir (row # rest) w =
         lc_rows P ftab stab plot_dir rest
           (print '' ... done\<newline>''
              (write_file (lc_fname plot_dir (uuid row)) (LightCurveFile fig)
                 (print (lc_fname plot_dir (uuid row)) w)))"
proof (cases "path_exists w (lc_fname plot_dir (uuid row))")
  case True
  then show ?thesis using skip lc_rows_skip by blast
next
  case False
  let ?f = "lc_fname plot_dir (uuid row)"
  have ne: "\<not> path_exists (print ?f w) ?f" using False by simp
  show ?thesis
  proof (cases "light_curve_of P ftab stab row")
    case (Inl e)
    then show ?thesis using False raise lc_rows_raise by blast
  next
    case (Inr fig)
    show ?thesis
    proof (cases "dir_exists w (dirname ?f)")
      case True
      then have "savefig ?f (LightCurveFile fig) (print ?f w)
                   = Inr (write_file ?f (LightCurveFile fig) (print ?f w))"
        using ne by (simp add: savefig_fresh)
      from lc_rows_done [OF False Inr this] show ?thesis using saved False Inr True by blast
    next
      case d: False
      then have "savefig ?f (LightCurveFile fig) (print ?f w) = Inl FileNotFoundError"
        using ne by (simp add: savefig_missing_dir)
      from lc_rows_unsaved [OF False Inr this] show ?thesis using unsaved False Inr d by blast
    qed
  qed
qed

lemma lc_rows_keeps:
  "lc_rows P ftab stab plot_dir rs w = (w1, e) \<Longrightarrow> files w p = Some c \<Longrightarrow> files w1 p = Some c"
proof (induction rs arbitrary: w)
  case Nil
  then show ?case by simp
next
  case (Cons row rest)
  let ?f = "lc_fname plot_dir (uuid row)"
  show ?case
  proof (cases rule: lc_rows_Cons_cases [of w plot_dir row P ftab stab rest])
    case skip
    with Cons.prems(1) have "lc_rows P ftab stab plot_dir rest
       (print '' ... skip\<newline>'' (print ?f w)) = (w1, e)" by simp
    from Cons.IH [OF this] Cons.prems(2) show ?thesis by simp
  next
    case (raise err)
    with Cons.prems show ?thesis by auto
  next
    case (unsaved fig)
    with Cons.prems show ?thesis by auto
  next
    case (saved fig)
    with Cons.prems(1) have "lc_rows P ftab stab plot_dir rest
       (print '' ... done\<newline>'' (write_file ?f (LightCurveFile fig) (print ?f w))) = (w1, e)"
      by simp
    moreover have "p \<noteq> ?f" using saved(1) Cons.prems(2) by (auto simp add: path_exists_def)
    ultimately show ?thesis using Cons.IH Cons.prems(2) by simp
  qed
qed

lemma lc_rows_dirs:
  "lc_rows P ftab stab plot_dir rs w = (w1, e) \<Longrightarrow> dirs w1 = dirs w"
proof (induction rs arbitrary: w)
  case Nil
  then show ?case by simp
next
  case (Cons row rest)
  let ?f = "lc_fname plot_dir (uuid row)"
  show ?case
  proof (cases rule: lc_rows_Cons_cases [of w plot_dir row P ftab stab rest])
    case skip
    with Cons.prems(1) have "lc_rows P ftab stab plot_dir rest
       (print '' ... skip\<newline>'' (print ?f w)) = (w1, e)" by simp
    from Cons.IH [OF this] show ?thesis by simp
  next
    case (raise err)
    with Cons.prems show ?thesis by auto
  next
    case (unsaved fig)
    with Cons.prems show ?thesis by auto
  next
    case (saved fig)
    with Cons.prems(1) have "lc_rows P ftab stab plot_dir rest
       (print '' ... done\<newline>'' (write_file ?f (LightCurveFile fig) (print ?f w))) = (w1, e)"
      by simp
    from Cons.IH [OF this] show ?thesis by simp
  qed
qed

lemma lc_rows_exists:
  assumes "lc_rows P ftab stab plot_dir rs w = (w1, e)" and "path_exists w p"
  shows "path_exists w1 p"
  using assms lc_rows_keeps [OF assms(1), of p] lc_rows_dirs [OF assms(1)]
  by (auto simp add: path_exists_def)

lemma lc_rows_again:
  "lc_rows P ftab stab plot_dir rs w = (w1, e1) \<Longrightarrow> files w2 = files w1 \<Longrightarrow> dirs w2 = dirs w \<Longrightarrow>
   files (fst (lc_rows P ftab stab plot_dir rs w2)) = files w1
   \<and> snd (lc_rows P ftab stab plot_dir rs w2) = e1"
proof (induction rs arbitrary: w w2)
  case Nil
  then show ?case by simp
next
  case (Cons row rest)
  let ?f = "lc_fname plot_dir (uuid row)"
  show ?case
  proof (cases rule: lc_rows_Cons_cases [of w plot_dir row P ftab stab rest])
    case skip
    with Cons.prems(1) have r: "lc_rows P ftab stab plot_dir rest
       (print '' ... skip\<newline>'' (print ?f w)) = (w1, e1)" by simp
    have "path_exists w1 ?f" using lc_rows_exists [OF Cons.prems(1) skip(1)] .
    then have "path_exists w2 ?f"
      using Cons.prems(2,3) lc_rows_dirs [OF Cons.prems(1)] by (simp add: path_exists_def)
    then show ?thesis
      using Cons.IH [OF r, of "print '' ... skip\<newline>'' (print ?f w2)"] Cons.prems(2,3)
      by (simp add: lc_rows_skip)
  next
    case (raise err)
    with Cons.prems(1) have w1: "w1 = print ?f w" "e1 = Some err" by auto
    then have "\<not> path_exists w2 ?f" using raise(1) Cons.prems(2,3) by (simp add: path_exists_def)
    then show ?thesis using raise(2) w1 Cons.prems(2) by (simp add: lc_rows_raise)
  next
    case (unsaved fig)
    with Cons.prems(1) have w1: "w1 = print ?f w" "e1 = Some FileNotFoundError" by auto
    then have ne: "\<not> path_exists w2 ?f"
      using unsaved(1) Cons.prems(2,3) by (simp add: path_exists_def)
    have "\<not> dir_exists w2 (dirname ?f)" using unsaved(3) Cons.prems(3) by (simp add: dir_exists_def)
    then have "savefig ?f (LightCurveFile fig) (print ?f w2) = Inl FileNotFoundError"
      using ne by (simp add: savefig_missing_dir)
    from lc_rows_unsaved [OF ne unsaved(2) this] show ?thesis using w1 Cons.prems(2) by simp
  next
    case (saved fig)
    with Cons.prems(1) have r: "lc_rows P ftab stab plot_dir rest
       (print '' ... done\<newline>'' (write_file ?f (LightCurveFile fig) (print ?f w))) = (w1, e1)"
      by simp
    have "files w1 ?f = Some (LightCurveFile fig)"
      using lc_rows_keeps [OF r, of ?f "LightCurveFile fig"] by simp
    then have "path_exists w2 ?f" using Cons.prems(2) by (simp add: path_exists_def)
    then show ?thesis
      using Cons.IH [OF r, of "print '' ... skip\<newline>'' (print ?f w2)"] Cons.prems(2,3)
      by (simp add: lc_rows_skip)
  qed
qed

lemma lc_rows_all_skipped:
  "lc_rows P ftab stab plot_dir rs w = (w1, None) \<Longrightarrow> files w2 = files w1 \<Longrightarrow> dirs w2 = dirs w \<Longrightarrow>
   stdout (fst (lc_rows P ftab stab plot_dir rs w2)) = stdout w2 @ skip_lines plot_dir rs"
proof (induction rs arbitrary: w w2)
  case Nil
  then show ?case by (simp add: skip_lines_def)
next
  case (Cons row rest)
  let ?f = "lc_fname plot_dir (uuid row)"
  have ex: "path_exists w2 ?f \<and> (\<exists>w'. dirs w' = dirs w \<and> lc_rows P ftab stab plot_dir rest w' = (w1, None))"
  proof (cases rule: lc_rows_Cons_cases [of w plot_dir row P ftab stab rest])
    case skip
    with Cons.prems(1) have r: "lc_rows P ftab stab plot_dir rest
       (print '' ... skip\<newline>'' (print ?f w)) = (w1, None)" by simp
    have "path_exists w1 ?f" using lc_rows_exists [OF Cons.prems(1) skip(1)] .
    then have "path_exists w2 ?f"
      using Cons.prems(2,3) lc_rows_dirs [OF Cons.prems(1)] by (simp add: path_exists_def)
    moreover have "dirs (print '' ... skip\<newline>'' (print ?f w)) = dirs w" by simp
    ultimately show ?thesis using r by blast
  next
    case (raise err)
    with Cons.prems(1) show ?thesis by simp
  next
    case (unsaved fig)
    with Cons.prems(1) show ?thesis by simp
  next
    case (saved fig)
    with Cons.prems(1) have r: "lc_rows P ftab stab plot_dir rest
       (print '' ... done\<newline>'' (write_file ?f (LightCurveFile fig) (print ?f w))) = (w1, None)"
      by simp
    have "files w1 ?f = Some (LightCurveFile fig)"
      using lc_rows_keeps [OF r, of ?f "LightCurveFile fig"] by simp
    then have "path_exists w2 ?f" using Cons.prems(2) by (simp add: path_exists_def)
    moreover have "dirs (print '' ... done\<newline>'' (write_file ?f (LightCurveFile fig) (print ?f w)))
                     = dirs w" by simp
    ultimately show ?thesis using r by blast
  qed
  then obtain w' where p: "path_exists w2 ?f" and d: "dirs w' = dirs w"
      and r: "lc_rows P ftab stab plot_dir rest w' = (w1, None)"
    by blast
  from Cons.IH [OF r, of "print '' ... skip\<newline>'' (print ?f w2)"] Cons.prems(2,3) p d
  show ?case by (simp add: lc_rows_skip skip_lines_def)
qed

lemma read_flux_keeps:
  "read_flux w f = Inr t \<Longrightarrow> (\<And>p c. files w p = Some c \<Longrightarrow> files w1 p = Some c) \<Longrightarrow>
   read_flux w1 f = Inr t"
  by (auto simp add: read_flux_def split: option.splits content.splits)

lemma read_stats_keeps:
  "read_stats w f = Inr t \<Longrightarrow> (\<And>p c. files w p = Some c \<Longrightarrow> files w1 p = Some c) \<Longrightarrow>
   read_stats w1 f = Inr t"
  by (auto simp add: read_stats_def split: option.splits content.splits)

lemma plot_lc_table_cases:
  obtains (no_flux) e where "read_flux w f = Inl e"
      "plot_lc_table P f s start stride plot_dir w = (w, Some e)"
  | (no_stats) ftab e where "read_flux w f = Inr ftab" "read_stats w s = Inl e"
      "plot_lc_table P f s start stride plot_dir w = (w, Some e)"
  | (no_slice) ftab stab e where "read_flux w f = Inr ftab" "read_stats w s = Inr stab"
      "py_slice (rows ftab) start stride = Inl e"
      "plot_lc_table P f s start stride plot_dir w = (w, Some e)"
  | (loop) ftab stab rs where "read_flux w f = Inr ftab" "read_stats w s = Inr stab"
      "py_slice (rows ftab) start stride = Inr rs"
      "plot_lc_table P f s start stride plot_dir w = lc_rows P ftab stab plot_dir rs w"
proof (cases "read_flux w f")
  case (Inl e)
  then show ?thesis using no_flux by (simp add: plot_lc_table_def)
next
  case f: (Inr ftab)
  show ?thesis
  proof (cases "read_stats w s")
    case (Inl e)
    then show ?thesis using f no_stats by (simp add: plot_lc_table_def)
  next
    case s: (Inr stab)
    show ?thesis
    proof (cases "py_slice (rows ftab) start stride")
      case (Inl e)
      then show ?thesis using f s no_slice by (simp add: plot_lc_table_def)
    next
      case (Inr rs)
      then show ?thesis using f s loop by (simp add: plot_lc_table_def)
    qed
  qed
qed

lemma plot_lc_table_keeps:
  assumes "plot_lc_table P f s start stride plot_dir w = (w1, e)" and "files w p = Some c"
  shows "files w1 p = Some c"
proof (cases rule: plot_lc_table_cases [of w f P s start stride plot_dir])
  case (loop ftab stab rs)
  with assms show ?thesis using lc_rows_keeps by metis
qed (use assms in auto)

lemma plot_lc_table_dirs:
  assumes "plot_lc_table P f s start stride plot_dir w = (w1, e)"
  shows "dirs w1 = dirs w"
proof (cases rule: plot_lc_table_cases [of w f P s start stride plot_dir])
  case (loop ftab stab rs)
  with assms show ?thesis using lc_rows_dirs by metis
qed (use assms in auto)

lemma plot_lc_table_again:
  assumes "plot_lc_table P f s start stride plot_dir w = (w1, e1)"
  shows "files (fst (plot_lc_table P f s start stride plot_dir w1)) = files w1
         \<and> snd (plot_lc_table P f s start stride plot_dir w1) = e1"
proof (cases rule: plot_lc_table_cases [of w f P s start stride plot_dir])
  case (loop ftab stab rs)
  with assms have r: "lc_rows P ftab stab plot_dir rs w = (w1, e1)" by simp
  have k: "\<And>p c. files w p = Some c \<Longrightarrow> files w1 p = Some c"
    using lc_rows_keeps [OF r] .
  have "read_flux w1 f = Inr ftab" "read_stats w1 s = Inr stab"
    using loop k by (auto intro: read_flux_keeps read_stats_keeps)
  then have "plot_lc_table P f s start stride plot_dir w1 = lc_rows P ftab stab plot_dir rs w1"
    using loop(3) by (simp add: plot_lc_table_def)
  then show ?thesis using lc_rows_again [OF r, of w1] lc_rows_dirs [OF r] by simp
qed (use assms in auto)

lemma plot_lc_table_all_skipped:
  assumes "plot_lc_table P f s start stride plot_dir w = (w1, None)"
  shows "\<exists>ftab rs. read_flux w f = Inr ftab \<and> py_slice (rows ftab) start stride = Inr rs
           \<and> stdout (fst (plot_lc_table P f s start stride plot_dir w1))
               = stdout w1 @ skip_lines plot_dir rs"
proof (cases rule: plot_lc_table_cases [of w f P s start stride plot_dir])
  case (loop ftab stab rs)
  with assms have r: "lc_rows P ftab stab plot_dir rs w = (w1, None)" by simp
  have k: "\<And>p c. files w p = Some c \<Longrightarrow> files w1 p = Some c"
    using lc_rows_keeps [OF r] .
  have "read_flux w1 f = Inr ftab" "read_stats w1 s = Inr stab"
    using loop k by (auto intro: read_flux_keeps read_stats_keeps)
  then have "plot_lc_table P f s start stride plot_dir w1 = lc_rows P ftab stab plot_dir rs w1"
    using loop(3) by (simp add: plot_lc_table_def)
  then show ?thesis using lc_rows_all_skipped [OF r, of w1] lc_rows_dirs [OF r] loop by simp
qed (use assms in auto)



lemma lc_rows_dom:
  "lc_rows P ftab stab plot_dir rs w = (w1, None) \<Longrightarrow>
   {p. path_exists w1 p} = {p. path_exists w p} \<union> (\<lambda>row. lc_fname plot_dir (uuid row)) ` set rs"
proof (induction rs arbitrary: w)
  case Nil
  then show ?case by simp
next
  case (Cons row rest)
  let ?f = "lc_fname plot_dir (uuid row)"
  show ?case
  proof (cases rule: lc_rows_Cons_cases [of w plot_dir row P ftab stab rest])
    case skip
    with Cons.prems have "lc_rows P ftab stab plot_dir rest
       (print '' ... skip\<newline>'' (print ?f w)) = (w1, None)" by simp
    from Cons.IH [OF this] skip(1) show ?thesis by auto
  next
    case (raise err)
    with Cons.prems show ?thesis by simp
  next
    case (unsaved fig)
    with Cons.prems show ?thesis by simp
  next
    case (saved fig)
    with Cons.prems have "lc_rows P ftab stab plot_dir rest
       (print '' ... done\<newline>'' (write_file ?f (LightCurveFile fig) (print ?f w))) = (w1, None)"
      by simp
    from Cons.IH [OF this] show ?thesis by (auto simp add: path_exists_def)
  qed
qed


lemma lc_rows_append:
  "lc_rows P ftab stab plot_dir (xs @ ys) w =
     (case lc_rows P ftab stab plot_dir xs w of
        (w1, None) \<Rightarrow> lc_rows P ftab stab plot_dir ys w1
      | (w1, Some e) \<Rightarrow> (w1, Some e))"
proof (induction xs arbitrary: w)
  case Nil
  then show ?case by simp
next
  case (Cons row rest)
  show ?case
    by (cases rule: lc_rows_Cons_cases [of w plot_dir row P ftab stab rest])
       (simp_all add: lc_rows.simps(2) [of P ftab stab plot_dir row] Let_def Cons.IH
          savefig_fresh savefig_missing_dir)
qed

lemma lc_rows_returns:
  "(\<And>row. row \<in> set rs \<Longrightarrow> (\<exists>fig. light_curve_of P ftab stab row = Inr fig)
                 \<and> dir_exists w (dirname (lc_fname plot_dir (uuid row)))) \<Longrightarrow>
   snd (lc_rows P ftab stab plot_dir rs w) = None"
proof (induction rs arbitrary: w)
  case Nil
  then show ?case by simp
next
  case (Cons row rest)
  let ?f = "lc_fname plot_dir (uuid row)"
  have here: "(\<exists>fig. light_curve_of P ftab stab row = Inr fig) \<and> dir_exists w (dirname ?f)"
    using Cons.prems by simp
  have later: "\<And>w'. dirs w' = dirs w \<Longrightarrow> snd (lc_rows P ftab stab plot_dir rest w') = None"
  proof -
    fix w' :: world assume d: "dirs w' = dirs w"
    show "snd (lc_rows P ftab stab plot_dir rest w') = None"
    proof (rule Cons.IH)
      fix r :: flux_row assume "r \<in> set rest"
      then show "(\<exists>fig. light_curve_of P ftab stab r = Inr fig)
                   \<and> dir_exists w' (dirname (lc_fname plot_dir (uuid r)))"
        using Cons.prems [of r] d by (simp add: dir_exists_def)
    qed
  qed
  show ?case
  proof (cases rule: lc_rows_Cons_cases [of w plot_dir row P ftab stab rest])
    case skip
    then show ?thesis using later by simp
  next
    case (raise err)
    with here show ?thesis by simp
  next
    case (unsaved fig)
    with here show ?thesis by simp
  next
    case (saved fig)
    then show ?thesis using later by simp
  qed
qed

text \<open>
  C3. A row whose output path exists is skipped: the loop goes on to the next row with
  the files as they were. A run of \<^verbatim>\<open>plot_lc_table\<close> never changes a file that exists.
  Running it again on the world it left, with the same arguments, leaves every file as it
  is and ends the same way; when the first run returned, the second skips every row of
  its slice.
\<close>

theorem render_step_idempotent:
  assumes "plot_lc_table strptime flux_table stats_table start stride plot_dir w = (w1, e1)"
  shows "(\<forall>ftab stab row rest w'.
            path_exists w' (lc_fname plot_dir (uuid row)) \<longrightarrow>
              lc_rows strptime ftab stab plot_dir (row # rest) w'
                = lc_rows strptime ftab stab plot_dir rest
                    (print '' ... skip\<newline>'' (print (lc_fname plot_dir (uuid row)) w'))
              \<and> files (print '' ... skip\<newline>'' (print (lc_fname plot_dir (uuid row)) w'))
                  = files w')
       \<and> (\<forall>p c. files w p = Some c \<longrightarrow> files w1 p = Some c)
       \<and> files (fst (plot_lc_table strptime flux_table stats_table start stride plot_dir w1))
           = files w1
       \<and> snd (plot_lc_table strptime flux_table stats_table start stride plot_dir w1) = e1
       \<and> (e1 = None \<longrightarrow>
            (\<exists>ftab rs. read_flux w flux_table = Inr ftab
               \<and> py_slice (rows ftab) start stride = Inr rs
               \<and> stdout (fst (plot_lc_table strptime flux_table stats_table start stride
                                 plot_dir w1))
                   = stdout w1 @ skip_lines plot_dir rs))"
proof (intro conjI allI impI)
  fix ftab stab and row :: flux_row and rest w'
  assume "path_exists w' (lc_fname plot_dir (uuid row))"
  then show "lc_rows strptime ftab stab plot_dir (row # rest) w'
      = lc_rows strptime ftab stab plot_dir rest
          (print '' ... skip\<newline>'' (print (lc_fname plot_dir (uuid row)) w'))"
    by (rule lc_rows_skip)
next
  fix row :: flux_row and w' :: world
  show "files (print '' ... skip\<newline>'' (print (lc_fname plot_dir (uuid row)) w')) = files w'"
    by simp
next
  fix p c assume "files w p = Some c"
  with assms show "files w1 p = Some c" by (rule plot_lc_table_keeps)
next
  show "files (fst (plot_lc_table strptime flux_table stats_table start stride plot_dir w1))
          = files w1"
    using plot_lc_table_again [OF assms] by simp
next
  show "snd (plot_lc_table strptime flux_table stats_table start stride plot_dir w1) = e1"
    using plot_lc_table_again [OF assms] by simp
next
  assume "e1 = None"
  with assms show "\<exists>ftab rs. read_flux w flux_table = Inr ftab
       \<and> py_slice (rows ftab) start stride = Inr rs
       \<and> stdout (fst (plot_lc_table strptime flux_table stats_table start stride plot_dir w1))
           = stdout w1 @ skip_lines plot_dir rs"
    using plot_lc_table_all_skipped by blast
qed

section \<open>The scheduler and its workers\<close>

lemma plot_lc_table_parallel_workers:
  "1 \<le> N \<Longrightarrow>
   plot_lc_table_parallel P f s d (int N) w
     = (fold (\<lambda>i w'. fst (plot_lc_table P f s (int i) (int N) d w')) [0..<N] w, None)"
  by (simp add: plot_lc_table_parallel_def)

lemma plot_lc_table_worker:
  assumes "i < N" and "read_flux w f = Inr ftab" and "read_stats w s = Inr stab"
  shows "plot_lc_table P f s (int i) (int N) d w
           = lc_rows P ftab stab d
               (map (\<lambda>k. rows ftab ! k)
                  (filter (\<lambda>k. k \<in> assigned N (length (rows ftab)) i) [0..<length (rows ftab)])) w"
  using assms by (simp add: plot_lc_table_def py_slice_worker)

lemma assigned_progression:
  assumes "i < N"
  shows "k \<in> assigned N n i \<longleftrightarrow> k < n \<and> (\<exists>j. k = i + j * N)"
proof -
  have "k mod N = i \<longleftrightarrow> (\<exists>j. k = i + j * N)"
  proof
    assume "k mod N = i"
    then have "k = i + (k div N) * N" using div_mult_mod_eq [of k N] by simp
    then show "\<exists>j. k = i + j * N" ..
  next
    assume "\<exists>j. k = i + j * N"
    then show "k mod N = i" using assms by auto
  qed
  then show ?thesis using assigned_iff [OF assms] by simp
qed

lemma fold_workers:
  assumes flux: "read_flux w0 f = Inr ftab" and stats: "read_stats w0 s = Inr stab"
    and good: "\<And>row. row \<in> set (rows ftab) \<Longrightarrow>
                 (\<exists>fig. light_curve_of P ftab stab row = Inr fig)
                 \<and> dir_exists w0 (dirname (lc_fname d (uuid row)))"
  shows "set js \<subseteq> {..<N} \<Longrightarrow> dirs w = dirs w0 \<Longrightarrow>
         (\<And>p c. files w0 p = Some c \<Longrightarrow> files w p = Some c) \<Longrightarrow>
         (fold (\<lambda>i w'. fst (plot_lc_table P f s (int i) (int N) d w')) js w, None)
           = lc_rows P ftab stab d
               (concat (map (\<lambda>i. map (\<lambda>k. rows ftab ! k)
                  (filter (\<lambda>k. k \<in> assigned N (length (rows ftab)) i) [0..<length (rows ftab)]))
                  js)) w"
proof (induction js arbitrary: w)
  case Nil
  then show ?case by simp
next
  case (Cons i js)
  let ?rs = "map (\<lambda>k. rows ftab ! k)
               (filter (\<lambda>k. k \<in> assigned N (length (rows ftab)) i) [0..<length (rows ftab)])"
  have i: "i < N" using Cons.prems(1) by simp
  have rf: "read_flux w f = Inr ftab" using flux Cons.prems(3) by (rule read_flux_keeps)
  have rs: "read_stats w s = Inr stab" using stats Cons.prems(3) by (rule read_stats_keeps)
  have run: "plot_lc_table P f s (int i) (int N) d w = lc_rows P ftab stab d ?rs w"
    using plot_lc_table_worker [OF i rf rs] .
  obtain w1 e where r: "lc_rows P ftab stab d ?rs w = (w1, e)" by (cases "lc_rows P ftab stab d ?rs w")
  have "snd (lc_rows P ftab stab d ?rs w) = None"
  proof (rule lc_rows_returns)
    fix row :: flux_row assume "row \<in> set ?rs"
    then have "row \<in> set (rows ftab)" by auto
    then show "(\<exists>fig. light_curve_of P ftab stab row = Inr fig)
                 \<and> dir_exists w (dirname (lc_fname d (uuid row)))"
      using good [of row] Cons.prems(2) by (simp add: dir_exists_def)
  qed
  then have e: "e = None" using r by simp
  have d1: "dirs w1 = dirs w0" using lc_rows_dirs [OF r] Cons.prems(2) by simp
  have k1: "\<And>p c. files w0 p = Some c \<Longrightarrow> files w1 p = Some c"
    using lc_rows_keeps [OF r] Cons.prems(3) by blast
  have js: "set js \<subseteq> {..<N}" using Cons.prems(1) by simp
  from Cons.IH [OF js d1 k1] show ?case
    using run r e by (simp add: lc_rows_append)
qed

text \<open>
  C1. For every worker count \<open>nprocs \<ge> 1\<close> the scheduler runs the workers
  \<open>0, ..., nprocs - 1\<close>, worker \<open>i\<close> being \<^verbatim>\<open>plot_lc_table\<close> with \<^verbatim>\<open>start=i, stride=nprocs\<close>.
  Worker \<open>i\<close> loops over the rows at the indices \<open>i, i + nprocs, i + 2 nprocs, ...\<close> of the
  table it reads, in this order. For every table of \<open>n\<close> rows these sets of indices cover
  \<open>0, ..., n - 1\<close> and are pairwise disjoint, so the rows of all workers together are the
  rows of the table, each as often as it is in the table. When every row of the table can
  be rendered and saved, the scheduler does what one loop over the rows of worker 0, then
  of worker 1 and so on does, and the output path of every row exists afterwards.
\<close>

theorem stride_partition:
  assumes "1 \<le> nprocs"
  shows "plot_lc_table_parallel strptime flux_table stats_table plot_dir (int nprocs) w
           = (fold (\<lambda>i w'. fst (plot_lc_table strptime flux_table stats_table (int i)
                                    (int nprocs) plot_dir w'))
                [0..<nprocs] w, None)
       \<and> (\<forall>i<nprocs. \<forall>ftab stab w'.
             read_flux w' flux_table = Inr ftab \<longrightarrow> read_stats w' stats_table = Inr stab \<longrightarrow>
             plot_lc_table strptime flux_table stats_table (int i) (int nprocs) plot_dir w'
               = lc_rows strptime ftab stab plot_dir
                   (map (\<lambda>k. rows ftab ! k)
                      (filter (\<lambda>k. k \<in> assigned nprocs (length (rows ftab)) i)
                         [0..<length (rows ftab)])) w')
       \<and> (\<forall>i<nprocs. \<forall>k. k \<in> assigned nprocs n i \<longleftrightarrow> k < n \<and> (\<exists>j. k = i + j * nprocs))
       \<and> (\<Union>i<nprocs. assigned nprocs n i) = {..<n}
       \<and> (\<forall>i<nprocs. \<forall>j<nprocs. i \<noteq> j \<longrightarrow> assigned nprocs n i \<inter> assigned nprocs n j = {})
       \<and> (\<forall>xs :: flux_row list.
             mset (concat (map (\<lambda>i. map (\<lambda>k. xs ! k)
                      (filter (\<lambda>k. k \<in> assigned nprocs (length xs) i) [0..<length xs]))
                    [0..<nprocs]))
               = mset xs)
       \<and> (\<forall>ftab stab.
             read_flux w flux_table = Inr ftab \<longrightarrow> read_stats w stats_table = Inr stab \<longrightarrow>
             (\<forall>row\<in>set (rows ftab).
                 (\<exists>fig. light_curve_of strptime ftab stab row = Inr fig)
                 \<and> dir_exists w (dirname (lc_fname plot_dir (uuid row)))) \<longrightarrow>
             plot_lc_table_parallel strptime flux_table stats_table plot_dir (int nprocs) w
               = lc_rows strptime ftab stab plot_dir
                   (concat (map (\<lambda>i. map (\<lambda>k. rows ftab ! k)
                      (filter (\<lambda>k. k \<in> assigned nprocs (length (rows ftab)) i)
                         [0..<length (rows ftab)]))
                    [0..<nprocs])) w
             \<and> (\<forall>row\<in>set (rows ftab).
                   path_exists
                     (fst (plot_lc_table_parallel strptime flux_table stats_table plot_dir
                             (int nprocs) w))
                     (lc_fname plot_dir (uuid row))))"
proof -
  let ?worker = "\<lambda>i w'. fst (plot_lc_table strptime flux_table stats_table (int i)
                              (int nprocs) plot_dir w')"
  have par: "plot_lc_table_parallel strptime flux_table stats_table plot_dir (int nprocs) w
           = (fold ?worker [0..<nprocs] w, None)"
    using assms by (rule plot_lc_table_parallel_workers)
  have workers: "\<forall>i<nprocs. \<forall>ftab stab w'.
             read_flux w' flux_table = Inr ftab \<longrightarrow> read_stats w' stats_table = Inr stab \<longrightarrow>
             plot_lc_table strptime flux_table stats_table (int i) (int nprocs) plot_dir w'
               = lc_rows strptime ftab stab plot_dir
                   (map (\<lambda>k. rows ftab ! k)
                      (filter (\<lambda>k. k \<in> assigned nprocs (length (rows ftab)) i)
                         [0..<length (rows ftab)])) w'"
    using plot_lc_table_worker by blast
  have prog: "\<forall>i<nprocs. \<forall>k. k \<in> assigned nprocs n i \<longleftrightarrow> k < n \<and> (\<exists>j. k = i + j * nprocs)"
    using assigned_progression by blast
  have cover: "(\<Union>i<nprocs. assigned nprocs n i) = {..<n}"
    using assms by (simp add: assigned_cover)
  have disj: "\<forall>i<nprocs. \<forall>j<nprocs. i \<noteq> j \<longrightarrow> assigned nprocs n i \<inter> assigned nprocs n j = {}"
    using assigned_disjoint by blast
  have perm: "\<forall>xs :: flux_row list.
             mset (concat (map (\<lambda>i. map (\<lambda>k. xs ! k)
                      (filter (\<lambda>k. k \<in> assigned nprocs (length xs) i) [0..<length xs]))
                    [0..<nprocs]))
               = mset xs"
    using assms by (simp add: mset_workers)
  have whole: "\<forall>ftab stab.
             read_flux w flux_table = Inr ftab \<longrightarrow> read_stats w stats_table = Inr stab \<longrightarrow>
             (\<forall>row\<in>set (rows ftab).
                 (\<exists>fig. light_curve_of strptime ftab stab row = Inr fig)
                 \<and> dir_exists w (dirname (lc_fname plot_dir (uuid row)))) \<longrightarrow>
             plot_lc_table_parallel strptime flux_table stats_table plot_dir (int nprocs) w
               = lc_rows strptime ftab stab plot_dir
                   (concat (map (\<lambda>i. map (\<lambda>k. rows ftab ! k)
                      (filter (\<lambda>k. k \<in> assigned nprocs (length (rows ftab)) i)
                         [0..<length (rows ftab)]))
                    [0..<nprocs])) w
             \<and> (\<forall>row\<in>set (rows ftab).
                   path_exists
                     (fst (plot_lc_table_parallel strptime flux_table stats_table plot_dir
                             (int nprocs) w))
                     (lc_fname plot_dir (uuid row)))"
  proof (intro allI impI)
    fix ftab stab
    assume flux: "read_flux w flux_table = Inr ftab" and stats: "read_stats w stats_table = Inr stab"
      and good: "\<forall>row\<in>set (rows ftab).
                 (\<exists>fig. light_curve_of strptime ftab stab row = Inr fig)
                 \<and> dir_exists w (dirname (lc_fname plot_dir (uuid row)))"
    let ?rs = "concat (map (\<lambda>i. map (\<lambda>k. rows ftab ! k)
                      (filter (\<lambda>k. k \<in> assigned nprocs (length (rows ftab)) i)
                         [0..<length (rows ftab)]))
                    [0..<nprocs])"
    have fw: "(fold ?worker [0..<nprocs] w, None) = lc_rows strptime ftab stab plot_dir ?rs w"
      by (rule fold_workers [OF flux stats]) (use good in auto)
    then have eq: "plot_lc_table_parallel strptime flux_table stats_table plot_dir
                     (int nprocs) w = lc_rows strptime ftab stab plot_dir ?rs w"
      using par by simp
    have "fst (plot_lc_table_parallel strptime flux_table stats_table plot_dir (int nprocs) w)
            = fold ?worker [0..<nprocs] w"
      by (simp only: par fst_conv)
    then have ret: "lc_rows strptime ftab stab plot_dir ?rs w
                 = (fst (plot_lc_table_parallel strptime flux_table stats_table plot_dir
                           (int nprocs) w), None)"
      using fw by (simp only:)
    have "set ?rs = set (rows ftab)"
      using perm by (metis set_mset_mset)
    then have "\<forall>row\<in>set (rows ftab).
                   path_exists
                     (fst (plot_lc_table_parallel strptime flux_table stats_table plot_dir
                             (int nprocs) w))
                     (lc_fname plot_dir (uuid row))"
      using lc_rows_dom [OF ret] by blast
    with eq show "plot_lc_table_parallel strptime flux_table stats_table plot_dir
                     (int nprocs) w = lc_rows strptime ftab stab plot_dir ?rs w
             \<and> (\<forall>row\<in>set (rows ftab).
                   path_exists
                     (fst (plot_lc_table_parallel strptime flux_table stats_table plot_dir
                             (int nprocs) w))
                     (lc_fname plot_dir (uuid row)))"
      by blast
  qed
  from par workers prog cover disj perm whole show ?thesis by blast
qed

section \<open>Sorting by timestamp\<close>



lemma map_raise_Inr_map: "map_raise f xs = Inr ys \<Longrightarrow> map f xs = map Inr ys"
  by (induction xs arbitrary: ys) (auto split: sum.splits)

lemma map_raise_Inl: "map_raise f xs = Inl e \<Longrightarrow> \<exists>x\<in>set xs. f x = Inl e"
  by (induction xs) (auto split: sum.splits)

lemma map_raise_ValueError:
  assumes "\<forall>a\<in>set es. \<exists>s. a = Str s" and "Str s \<in> set es" and "P s = None"
  shows "map_raise (strptime_cell P) es = Inl ValueError"
proof (cases "map_raise (strptime_cell P) es")
  case (Inl e)
  then obtain a where "a \<in> set es" "strptime_cell P a = Inl e" using map_raise_Inl by fastforce
  with assms(1) have "e = ValueError"
    by (auto simp add: strptime_cell_def split: option.splits)
  with Inl show ?thesis by simp
next
  case (Inr ts)
  then have "map (strptime_cell P) es = map Inr ts" by (rule map_raise_Inr_map)
  then have "\<forall>a\<in>set es. \<exists>t. strptime_cell P a = Inr t"
    by (metis (no_types, lifting) imageE image_eqI list.set_map)
  with assms(2,3) show ?thesis by (auto simp add: strptime_cell_def)
qed







section \<open>Rendering one row\<close>



lemma light_curve_of_bad_label:
  assumes "row_getitem ftab row (column_names ftab ''epoch'') = Inr es"
      and "\<forall>a\<in>set es. \<exists>s. a = Str s" and "Str s \<in> set es" and "P s = None"
  shows "light_curve_of P ftab stab row = Inl ValueError"
  using assms(1) map_raise_ValueError [of es s P] assms(2,3,4)
  by (simp add: light_curve_of_def and_then_def)

lemma plot_lc_table_parallel_returns:
  "1 \<le> nprocs \<Longrightarrow> snd (plot_lc_table_parallel P f s d nprocs w) = None"
  by (simp add: plot_lc_table_parallel_def)

text \<open>
  C5. When the worker reaches a row whose output path does not exist, whose
  epoch cells are all strings and one of whose labels does not match the timestamp
  format, the loop ends there with \<^verbatim>\<open>ValueError\<close>: the path has been printed, no file is
  written for this row or any later one. The scheduler does not see it: for a process
  count of at least 1 it returns without an exception. A row whose output path exists is
  skipped before any label is parsed.
\<close>

theorem bad_label_stops_worker:
  assumes "\<not> path_exists w (lc_fname plot_dir (uuid row))"
      and "row_getitem ftab row (column_names ftab ''epoch'') = Inr es"
      and "\<forall>a\<in>set es. \<exists>s. a = Str s"
      and "Str s \<in> set es"
      and "strptime s = None"
  shows "lc_rows strptime ftab stab plot_dir (row # rest) w
           = (print (lc_fname plot_dir (uuid row)) w, Some ValueError)
       \<and> (\<forall>flux_table stats_table nprocs w0.
             1 \<le> nprocs \<longrightarrow>
               snd (plot_lc_table_parallel strptime flux_table stats_table plot_dir nprocs w0)
                 = None)
       \<and> (\<forall>w'. path_exists w' (lc_fname plot_dir (uuid row)) \<longrightarrow>
             lc_rows strptime ftab stab plot_dir (row # rest) w'
               = lc_rows strptime ftab stab plot_dir rest
                   (print '' ... skip\<newline>'' (print (lc_fname plot_dir (uuid row)) w')))"
proof -
  have "light_curve_of strptime ftab stab row = Inl ValueError"
    using light_curve_of_bad_label [of ftab row es s strptime stab] assms(2,3,4,5) by blast
  from lc_rows_raise [OF assms(1) this] show ?thesis
    by (simp add: plot_lc_table_parallel_returns lc_rows_skip)
qed

lemma lc_rows_render:
  "\<not> path_exists w (lc_fname plot_dir (uuid row)) \<Longrightarrow> light_curve_of P ftab stab row = Inr fig \<Longrightarrow>
   lc_rows P ftab stab plot_dir (row # rest) w
     = (case savefig (lc_fname plot_dir (uuid row)) (LightCurveFile fig)
               (print (lc_fname plot_dir (uuid row)) w) of
          Inl e \<Rightarrow> (print (lc_fname plot_dir (uuid row)) w, Some e)
        | Inr w2 \<Rightarrow> lc_rows P ftab stab plot_dir rest (print '' ... done\<newline>'' w2))"
  by (simp add: lc_rows.simps(2) Let_def)

lemma sort_key_Nil_iff: "sort_key f xs = [] \<longleftrightarrow> xs = []"
  by (metis length_0_conv length_sort)

lemma light_curve_of_lookup:
  assumes "row_getitem ftab row (column_names ftab ''epoch'') = Inr es"
      and "map_raise (strptime_cell P) es = Inr ts"
      and "row_getitem ftab row (column_names ftab ''peak_flux'') = Inr fs"
      and "row_getitem ftab row (column_names ftab ''err_peak_flux'') = Inr errs"
      and "zipped_list es fs errs \<noteq> []"
  shows "filter (\<lambda>s. uuid s = uuid row) stab = [] \<Longrightarrow>
           light_curve_of P ftab stab row = Inl IndexError"
    and "filter (\<lambda>s. uuid s = uuid row) stab = s # others \<Longrightarrow>
           \<exists>fig. light_curve_of P ftab stab row = Inr fig
                 \<and> legend fig = (m_slope s, md s, chisq_peak_flux s)"
  using assms by (simp_all add: light_curve_of_def and_then_def Let_def sort_key_Nil_iff)

text \<open>
  C9. When the worker reaches a row whose output path does not exist, whose
  three families of columns are present and whose epoch labels all parse: if no row of
  the statistics table has its uuid, the loop ends there with \<^verbatim>\<open>IndexError\<close>; if some row
  has, the figure is made with the legend of the first such row and handed to \<^verbatim>\<open>savefig\<close>;
  the loop goes on when the file has been written and ends with the exception of
  \<^verbatim>\<open>savefig\<close> otherwise. In particular the lookup succeeds when exactly one row matches. A row whose output path
  exists is skipped before the statistics table is consulted.
\<close>

theorem stats_lookup:
  assumes "\<not> path_exists w (lc_fname plot_dir (uuid row))"
      and "row_getitem ftab row (column_names ftab ''epoch'') = Inr es"
      and "map_raise (strptime_cell strptime) es = Inr ts"
      and "row_getitem ftab row (column_names ftab ''peak_flux'') = Inr fs"
      and "row_getitem ftab row (column_names ftab ''err_peak_flux'') = Inr errs"
      and "zipped_list es fs errs \<noteq> []"
  shows "(filter (\<lambda>s. uuid s = uuid row) stab = [] \<longrightarrow>
            lc_rows strptime ftab stab plot_dir (row # rest) w
              = (print (lc_fname plot_dir (uuid row)) w, Some IndexError))
       \<and> (\<forall>s others. filter (\<lambda>s. uuid s = uuid row) stab = s # others \<longrightarrow>
            (\<exists>fig. light_curve_of strptime ftab stab row = Inr fig
               \<and> legend fig = (m_slope s, md s, chisq_peak_flux s)
               \<and> lc_rows strptime ftab stab plot_dir (row # rest) w
                   = (case savefig (lc_fname plot_dir (uuid row)) (LightCurveFile fig)
                             (print (lc_fname plot_dir (uuid row)) w) of
                        Inl e \<Rightarrow> (print (lc_fname plot_dir (uuid row)) w, Some e)
                      | Inr w2 \<Rightarrow>
                          lc_rows strptime ftab stab plot_dir rest
                            (print '' ... done\<newline>'' w2))))
       \<and> (length (filter (\<lambda>s. uuid s = uuid row) stab) = 1 \<longrightarrow>
            (\<exists>fig. light_curve_of strptime ftab stab row = Inr fig))
       \<and> (\<forall>w'. path_exists w' (lc_fname plot_dir (uuid row)) \<longrightarrow>
             lc_rows strptime ftab stab plot_dir (row # rest) w'
               = lc_rows strptime ftab stab plot_dir rest
                   (print '' ... skip\<newline>'' (print (lc_fname plot_dir (uuid row)) w')))"
proof (intro conjI allI impI)
  assume "filter (\<lambda>s. uuid s = uuid row) stab = []"
  from light_curve_of_lookup(1) [OF assms(2-6) this]
  show "lc_rows strptime ftab stab plot_dir (row # rest) w
      = (print (lc_fname plot_dir (uuid row)) w, Some IndexError)"
    using assms(1) by (simp add: lc_rows_raise)
next
  fix s others assume "filter (\<lambda>s. uuid s = uuid row) stab = s # others"
  from light_curve_of_lookup(2) [OF assms(2-6) this]
  obtain fig where f: "light_curve_of strptime ftab stab row = Inr fig"
    "legend fig = (m_slope s, md s, chisq_peak_flux s)" by blast
  with lc_rows_render [OF assms(1) f(1)]
  show "\<exists>fig. light_curve_of strptime ftab stab row = Inr fig
       \<and> legend fig = (m_slope s, md s, chisq_peak_flux s)
       \<and> lc_rows strptime ftab stab plot_dir (row # rest) w
           = (case savefig (lc_fname plot_dir (uuid row)) (LightCurveFile fig)
                     (print (lc_fname plot_dir (uuid row)) w) of
                Inl e \<Rightarrow> (print (lc_fname plot_dir (uuid row)) w, Some e)
              | Inr w2 \<Rightarrow>
                  lc_rows strptime ftab stab plot_dir rest
                    (print '' ... done\<newline>'' w2))"
    by blast
next
  assume "length (filter (\<lambda>s. uuid s = uuid row) stab) = 1"
  then obtain s others where "filter (\<lambda>s. uuid s = uuid row) stab = s # others"
    by (cases "filter (\<lambda>s. uuid s = uuid row) stab") auto
  from light_curve_of_lookup(2) [OF assms(2-6) this]
  show "\<exists>fig. light_curve_of strptime ftab stab row = Inr fig" by blast
next
  fix w' assume "path_exists w' (lc_fname plot_dir (uuid row))"
  then show "lc_rows strptime ftab stab plot_dir (row # rest) w'
      = lc_rows strptime ftab stab plot_dir rest
          (print '' ... skip\<newline>'' (print (lc_fname plot_dir (uuid row)) w'))"
    by (rule lc_rows_skip)
qed

section \<open>Files written and output printed\<close>














section \<open>The main blocks\<close>

text \<open>
  C7. When \<^verbatim>\<open>--cores\<close> is not given, the main block behaves as if it had been given the
  host's \<^verbatim>\<open>cpu_count\<close>; the scheduler is called with the given value, or with that
  count, as its number of processes.
\<close>

theorem cores_default:
  "(cores results = None \<longrightarrow>
      main strptime results w = main strptime (results\<lparr>cores := Some (cpu_count w)\<rparr>) w)
   \<and> ((truthy (ftable results) \<or> truthy (stable results)) \<and> all results
        \<and> plot_summary_table (stable results) (plotfile results)
             (if truthy (ftable results) \<and> truthy (stable results) then w
              else print error_message w) = (w2, None) \<longrightarrow>
      main strptime results w =
        (case plot_lc_table_parallel strptime (ftable results) (stable results)
                (light_curve_dir results)
                (case cores results of None \<Rightarrow> cpu_count w | Some n \<Rightarrow> n) w2 of
           (w3, Some e) \<Rightarrow> (w3, Raised e)
         | (w3, None) \<Rightarrow> (w3, Returned)))"
  by (auto simp add: main_def Let_def split: prod.splits option.splits)












text \<open>
  C10. With a non-empty \<^verbatim>\<open>--dbname\<close>, the main block of \<^verbatim>\<open>plot_variables.py\<close> ends with
  \<^verbatim>\<open>AttributeError\<close> and the world is as it was: nothing has been read, plotted or
  printed.
\<close>

theorem dbname_attribute_error:
  assumes "truthy (db results)"
  shows "db_main results w = (w, Raised AttributeError)"
  using assms by (simp add: db_main_def)

section \<open>Examples\<close>

lemmas row_eval = light_curve_of_def and_then_def example_ftab_def example_colnames_def
  example_stab_def stats_of_def row_getitem_def column_names_def startswith_def zipped_list_def
  strptime_cell_def sort_time_def strptime_fixed_def digits_at_def digit_def days_in_month_def

lemma example_row_a:
  "light_curve_of strptime_fixed (example_ftab rs) example_stab row_a = Inr figure_a"
  by (simp add: row_eval row_a_def figure_a_def)

lemma example_row_b:
  "light_curve_of strptime_fixed (example_ftab rs) example_stab row_b = Inl ValueError"
  by (simp add: row_eval row_b_def)

lemma example_row_c:
  "light_curve_of strptime_fixed (example_ftab rs) example_stab row_c = Inl IndexError"
  by (simp add: row_eval row_c_def)

lemma example_row_d:
  "light_curve_of strptime_fixed (example_ftab rs) example_stab row_d = Inr figure_d"
  by (simp add: row_eval row_d_def figure_d_def)

lemma example_row_e:
  "light_curve_of strptime_fixed (example_ftab rs) example_stab row_e = Inr figure_e"
  by (simp add: row_eval row_e_def figure_e_def)

lemma example_uuids:
  "uuid row_a = ''a''" "uuid row_b = ''b''" "uuid row_c = ''c''" "uuid row_d = ''d''"
  "uuid row_e = ''e''"
  by (simp_all add: row_a_def row_b_def row_c_def row_d_def row_e_def)

lemma example_dirnames:
  "dirname ''plots/a.png'' = ''plots''" "dirname ''plots/b.png'' = ''plots''"
  "dirname ''plots/c.png'' = ''plots''" "dirname ''plots/d.png'' = ''plots''"
  "dirname ''plots/e.png'' = ''plots''" "dirname ''missing/a.png'' = ''missing''"
  "dirname ''summary.png'' = []"
  by (simp_all add: dirname_def)

lemma example_dirs: "dirs (example_world rs) = {''plots''}"
  by (simp add: example_world_def)

lemma example_read_flux: "read_flux (example_world rs) (Some ''flux.fits'') = Inr (example_ftab rs)"
  by (simp add: read_flux_def example_world_def)

lemma example_read_stats: "read_stats (example_world rs) (Some ''stats.fits'') = Inr example_stab"
  by (simp add: read_stats_def example_world_def)

lemma py_slice_all: "py_slice xs 0 1 = Inr xs"
  by (simp add: py_slice_def slice_indices_def map_nth)

lemma example_rows: "rows (example_ftab rs) = rs"
  by (simp add: example_ftab_def)

lemmas run_eval = example_run_def plot_lc_table_def example_read_flux example_read_stats
  py_slice_all example_rows lc_rows.simps(2) Let_def path_exists_def lc_fname_def example_uuids
  example_row_a example_row_b example_row_c example_row_d example_row_e
  savefig_def dir_exists_def example_dirnames example_dirs

lemma example_files_plots:
  "files (example_world rs)
     = [''flux.fits'' \<mapsto> FluxFile (example_ftab rs), ''stats.fits'' \<mapsto> StatsFile example_stab]"
  by (simp add: example_world_def)




lemma example_times:
  "strptime_fixed ''2020-05-29T12:00:00'' = Some 20200529120000"
  "strptime_fixed ''2020-05-30T00:00:00'' = Some 20200530000000"
  "strptime_fixed ''yesterday'' = None"
  by (simp_all add: strptime_fixed_def digits_at_def digit_def days_in_month_def)

theorem render_step_idempotent_witness:
  "snd (example_run (example_world [row_a, row_d])) = None
   \<and> files (fst (example_run (fst (example_run (example_world [row_a, row_d])))))
       = files (fst (example_run (example_world [row_a, row_d])))
   \<and> snd (example_run (fst (example_run (example_world [row_a, row_d])))) = None
   \<and> stdout (fst (example_run (fst (example_run (example_world [row_a, row_d])))))
       = stdout (fst (example_run (example_world [row_a, row_d])))
         @ [Print ''plots/a.png'', Print '' ... skip\<newline>'',
            Print ''plots/d.png'', Print '' ... skip\<newline>'']"
proof -
  let ?w = "example_world [row_a, row_d]"
  have e: "snd (example_run ?w) = None"
    by (simp add: run_eval example_files_plots)
  have h: "plot_lc_table strptime_fixed (Some ''flux.fits'') (Some ''stats.fits'') 0 1 ''plots'' ?w
             = (fst (example_run ?w), None)"
    using e by (simp add: example_run_def prod_eq_iff)
  have s: "skip_lines ''plots'' [row_a, row_d]
             = [Print ''plots/a.png'', Print '' ... skip\<newline>'',
                Print ''plots/d.png'', Print '' ... skip\<newline>'']"
    by (simp add: skip_lines_def lc_fname_def example_uuids)
  from render_step_idempotent [OF h]
  have "files (fst (example_run (fst (example_run ?w)))) = files (fst (example_run ?w))"
    and "snd (example_run (fst (example_run ?w))) = None"
    and "\<exists>ftab rs. read_flux ?w (Some ''flux.fits'') = Inr ftab
           \<and> py_slice (rows ftab) 0 1 = Inr rs
           \<and> stdout (fst (example_run (fst (example_run ?w))))
               = stdout (fst (example_run ?w)) @ skip_lines ''plots'' rs"
    by (simp_all add: example_run_def)
  with e s show ?thesis
    by (auto simp add: example_read_flux py_slice_all example_rows)
qed



theorem bad_label_skipped_counterexample:
  "Str ''yesterday'' \<in> set (cells row_b)
   \<and> strptime_fixed ''yesterday'' = None
   \<and> path_exists (write_file ''plots/b.png'' (LightCurveFile figure_d) (example_world [row_b, row_a]))
        (lc_fname ''plots'' (uuid row_b))
   \<and> snd (example_run (write_file ''plots/b.png'' (LightCurveFile figure_d)
                         (example_world [row_b, row_a]))) = None
   \<and> stdout (fst (example_run (write_file ''plots/b.png'' (LightCurveFile figure_d)
                                 (example_world [row_b, row_a]))))
       = [Print ''plots/b.png'', Print '' ... skip\<newline>'',
          Print ''plots/a.png'', Print '' ... done\<newline>'']"
  by (simp add: run_eval example_times example_files_plots read_flux_def
      read_stats_def example_world_def row_b_def [THEN arg_cong, of cells])

lemma example_epochs_b:
  "row_getitem (example_ftab rs) row_b (column_names (example_ftab rs) ''epoch'')
     = Inr [Str ''2020-05-29T12:00:00'', Str ''yesterday'']"
  by (simp add: row_eval row_b_def)

lemma example_fresh:
  "\<not> path_exists (example_world rs) (lc_fname plot_dir u)"
  by (simp add: path_exists_def lc_fname_def example_world_def)

lemma example_slices:
  "py_slice [x0, x1, x2] 0 2 = Inr [x0, x2]"
  "py_slice [x0, x1, x2] 1 2 = Inr [x1]"
  by (simp_all add: py_slice_def slice_indices_def upt_rec)

lemma example_two_workers:
  "snd (plot_lc_table_parallel strptime_fixed (Some ''flux.fits'') (Some ''stats.fits'')
             ''plots'' 2 (example_world [row_b, row_a, row_d])) = None
   \<and> files (fst (plot_lc_table_parallel strptime_fixed (Some ''flux.fits'') (Some ''stats.fits'')
             ''plots'' 2 (example_world [row_b, row_a, row_d]))) ''plots/a.png''
       = Some (LightCurveFile figure_a)
   \<and> files (fst (plot_lc_table_parallel strptime_fixed (Some ''flux.fits'') (Some ''stats.fits'')
             ''plots'' 2 (example_world [row_b, row_a, row_d]))) ''plots/b.png'' = None
   \<and> files (fst (plot_lc_table_parallel strptime_fixed (Some ''flux.fits'') (Some ''stats.fits'')
             ''plots'' 2 (example_world [row_b, row_a, row_d]))) ''plots/d.png'' = None"
  by (simp add: plot_lc_table_parallel_def numeral_2_eq_2 plot_lc_table_def read_flux_def
      read_stats_def example_files_plots example_rows example_slices lc_rows.simps(2) Let_def
      path_exists_def lc_fname_def example_uuids example_row_a example_row_b example_row_d
      savefig_def dir_exists_def example_dirnames example_dirs)

theorem bad_label_stops_worker_witness:
  "\<not> path_exists (example_world [row_b, row_a]) (lc_fname ''plots'' (uuid row_b))
   \<and> strptime_fixed ''yesterday'' = None
   \<and> example_run (example_world [row_b, row_a])
       = (print ''plots/b.png'' (example_world [row_b, row_a]), Some ValueError)
   \<and> snd (plot_lc_table_parallel strptime_fixed (Some ''flux.fits'') (Some ''stats.fits'')
             ''plots'' 2 (example_world [row_b, row_a])) = None
   \<and> files (fst (plot_lc_table_parallel strptime_fixed (Some ''flux.fits'') (Some ''stats.fits'')
             ''plots'' 2 (example_world [row_b, row_a, row_d]))) ''plots/a.png''
       = Some (LightCurveFile figure_a)
   \<and> files (fst (plot_lc_table_parallel strptime_fixed (Some ''flux.fits'') (Some ''stats.fits'')
             ''plots'' 2 (example_world [row_b, row_a, row_d]))) ''plots/d.png'' = None"
proof -
  let ?w = "example_world [row_b, row_a]"
  have h1: "\<not> path_exists ?w (lc_fname ''plots'' (uuid row_b))"
    by (rule example_fresh)
  have h2: "\<forall>a\<in>set [Str ''2020-05-29T12:00:00'', Str ''yesterday'']. \<exists>s. a = Str s"
    by simp
  have h3: "Str ''yesterday'' \<in> set [Str ''2020-05-29T12:00:00'', Str ''yesterday'']"
    by simp
  have h4: "strptime_fixed ''yesterday'' = None"
    by (rule example_times(3))
  from bad_label_stops_worker [where strptime = strptime_fixed and s = "''yesterday''"
      and w = ?w and plot_dir = "''plots''" and row = row_b and rest = "[row_a]"
      and ftab = "example_ftab [row_b, row_a]" and stab = example_stab
      and es = "[Str ''2020-05-29T12:00:00'', Str ''yesterday'']"]
    h1 example_epochs_b h2 h3 h4
  have a: "lc_rows strptime_fixed (example_ftab [row_b, row_a]) example_stab ''plots''
             [row_b, row_a] ?w = (print ''plots/b.png'' ?w, Some ValueError)"
    and b: "snd (plot_lc_table_parallel strptime_fixed (Some ''flux.fits'') (Some ''stats.fits'')
             ''plots'' 2 ?w) = None"
    by (simp_all add: lc_fname_def example_uuids)
  have "example_run ?w = lc_rows strptime_fixed (example_ftab [row_b, row_a]) example_stab
          ''plots'' [row_b, row_a] ?w"
    by (simp add: example_run_def plot_lc_table_def example_read_flux example_read_stats
        py_slice_all example_rows)
  with a b h1 h4 example_two_workers show ?thesis by simp
qed

theorem missing_stats_skipped_counterexample:
  "filter (\<lambda>s. uuid s = uuid row_c) example_stab = []
   \<and> path_exists (write_file ''plots/c.png'' (LightCurveFile figure_d) (example_world [row_c, row_a]))
        (lc_fname ''plots'' (uuid row_c))
   \<and> snd (example_run (write_file ''plots/c.png'' (LightCurveFile figure_d)
                         (example_world [row_c, row_a]))) = None
   \<and> stdout (fst (example_run (write_file ''plots/c.png'' (LightCurveFile figure_d)
                                 (example_world [row_c, row_a]))))
       = [Print ''plots/c.png'', Print '' ... skip\<newline>'',
          Print ''plots/a.png'', Print '' ... done\<newline>'']"
proof -
  have "filter (\<lambda>s. uuid s = uuid row_c) example_stab = []"
    by (simp add: example_stab_def stats_of_def example_uuids)
  then show ?thesis
    by (simp add: run_eval example_files_plots read_flux_def read_stats_def example_world_def)
qed

lemma example_columns_c:
  "row_getitem (example_ftab rs) row_c (column_names (example_ftab rs) ''epoch'')
     = Inr [Str ''2020-05-29T12:00:00'', Str ''2020-05-30T00:00:00'']"
  "row_getitem (example_ftab rs) row_c (column_names (example_ftab rs) ''peak_flux'')
     = Inr [Num 5, Num 6]"
  "row_getitem (example_ftab rs) row_c (column_names (example_ftab rs) ''err_peak_flux'')
     = Inr [Num 0.5, Num 0.6]"
  by (simp_all add: row_eval row_c_def)

theorem stats_lookup_witness:
  "\<not> path_exists (example_world [row_c, row_a]) (lc_fname ''plots'' (uuid row_c))
   \<and> filter (\<lambda>s. uuid s = uuid row_c) example_stab = []
   \<and> example_run (example_world [row_c, row_a])
       = (print ''plots/c.png'' (example_world [row_c, row_a]), Some IndexError)"
proof -
  let ?w = "example_world [row_c, row_a]"
  have h1: "\<not> path_exists ?w (lc_fname ''plots'' (uuid row_c))"
    by (rule example_fresh)
  have h3: "map_raise (strptime_cell strptime_fixed)
              [Str ''2020-05-29T12:00:00'', Str ''2020-05-30T00:00:00'']
              = Inr [20200529120000, 20200530000000]"
    by (simp add: strptime_cell_def example_times)
  have h6: "zipped_list [Str ''2020-05-29T12:00:00'', Str ''2020-05-30T00:00:00'']
              [Num 5, Num 6] [Num 0.5, Num 0.6] \<noteq> []"
    by (simp add: zipped_list_def)
  have n: "filter (\<lambda>s. uuid s = uuid row_c) example_stab = []"
    by (simp add: example_stab_def stats_of_def example_uuids)
  from stats_lookup [where strptime = strptime_fixed and stab = example_stab
      and rest = "[row_a]", OF h1 example_columns_c(1) h3 example_columns_c(2)
      example_columns_c(3) h6] n
  have a: "lc_rows strptime_fixed (example_ftab [row_c, row_a]) example_stab ''plots''
             [row_c, row_a] ?w = (print ''plots/c.png'' ?w, Some IndexError)"
    by (simp add: lc_fname_def example_uuids)
  have "example_run ?w = lc_rows strptime_fixed (example_ftab [row_c, row_a]) example_stab
          ''plots'' [row_c, row_a] ?w"
    by (simp add: example_run_def plot_lc_table_def example_read_flux example_read_stats
        py_slice_all example_rows)
  with a h1 n show ?thesis by simp
qed



lemma example_assigned:
  "assigned 2 3 0 = {0, 2}" "assigned 2 3 1 = {1}"
  by code_simp+

lemma example_worker_indices:
  "filter (\<lambda>k. k \<in> assigned 2 3 0) [0..<3] = [0, 2]"
  "filter (\<lambda>k. k \<in> assigned 2 3 1) [0..<3] = [1]"
  by code_simp+

lemma example_worker_rows:
  "map (\<lambda>k. [x0, x1, x2] ! k)
     (filter (\<lambda>k. k \<in> assigned 2 (length [x0, x1, x2]) 0) [0..<length [x0, x1, x2]])
     = [x0, x2]"
  "map (\<lambda>k. [x0, x1, x2] ! k)
     (filter (\<lambda>k. k \<in> assigned 2 (length [x0, x1, x2]) 1) [0..<length [x0, x1, x2]])
     = [x1]"
proof -
  have l: "length [x0, x1, x2] = 3" by simp
  show "map (\<lambda>k. [x0, x1, x2] ! k)
     (filter (\<lambda>k. k \<in> assigned 2 (length [x0, x1, x2]) 0) [0..<length [x0, x1, x2]])
     = [x0, x2]"
    by (simp only: l example_worker_indices) simp
  show "map (\<lambda>k. [x0, x1, x2] ! k)
     (filter (\<lambda>k. k \<in> assigned 2 (length [x0, x1, x2]) 1) [0..<length [x0, x1, x2]])
     = [x1]"
    by (simp only: l example_worker_indices) simp
qed

lemma example_workers: "[0..<2] = [0, 1]"
  by code_simp

theorem stride_partition_witness:
  "(1::nat) \<le> 2
   \<and> assigned 2 3 0 = {0, 2} \<and> assigned 2 3 1 = {1}
   \<and> (\<Union>i<2. assigned 2 3 i) = {..<3}
   \<and> assigned 2 3 0 \<inter> assigned 2 3 1 = {}
   \<and> plot_lc_table strptime_fixed (Some ''flux.fits'') (Some ''stats.fits'') 1 2 ''plots''
         (example_world [row_a, row_d, row_e])
       = lc_rows strptime_fixed (example_ftab [row_a, row_d, row_e]) example_stab ''plots''
           [row_d] (example_world [row_a, row_d, row_e])
   \<and> plot_lc_table_parallel strptime_fixed (Some ''flux.fits'') (Some ''stats.fits'') ''plots'' 2
         (example_world [row_a, row_d, row_e])
       = lc_rows strptime_fixed (example_ftab [row_a, row_d, row_e]) example_stab ''plots''
           [row_a, row_e, row_d] (example_world [row_a, row_d, row_e])
   \<and> stdout (fst (plot_lc_table_parallel strptime_fixed (Some ''flux.fits'')
                     (Some ''stats.fits'') ''plots'' 2 (example_world [row_a, row_d, row_e])))
       = [Print ''plots/a.png'', Print '' ... done\<newline>'',
          Print ''plots/e.png'', Print '' ... done\<newline>'',
          Print ''plots/d.png'', Print '' ... done\<newline>'']
   \<and> path_exists (fst (plot_lc_table_parallel strptime_fixed (Some ''flux.fits'')
                          (Some ''stats.fits'') ''plots'' 2 (example_world [row_a, row_d, row_e])))
        ''plots/a.png''
   \<and> path_exists (fst (plot_lc_table_parallel strptime_fixed (Some ''flux.fits'')
                          (Some ''stats.fits'') ''plots'' 2 (example_world [row_a, row_d, row_e])))
        ''plots/d.png''
   \<and> path_exists (fst (plot_lc_table_parallel strptime_fixed (Some ''flux.fits'')
                          (Some ''stats.fits'') ''plots'' 2 (example_world [row_a, row_d, row_e])))
        ''plots/e.png''"
proof -
  let ?rs = "[row_a, row_d, row_e]"
  let ?w = "example_world ?rs"
  let ?par = "plot_lc_table_parallel strptime_fixed (Some ''flux.fits'') (Some ''stats.fits'')
                ''plots'' 2 ?w"
  have h: "(1::nat) \<le> 2" by simp
  have good: "\<forall>row\<in>set (rows (example_ftab ?rs)).
                 (\<exists>fig. light_curve_of strptime_fixed (example_ftab ?rs) example_stab row = Inr fig)
                 \<and> dir_exists ?w (dirname (lc_fname ''plots'' (uuid row)))"
    by (simp add: example_rows example_row_a example_row_d example_row_e dir_exists_def
        lc_fname_def example_uuids example_dirnames example_dirs)
  note sp = stride_partition [OF h, of strptime_fixed "Some ''flux.fits''" "Some ''stats.fits''"
      "''plots''" ?w 3]
  note rest1 = sp [THEN conjunct2]
  note rest2 = rest1 [THEN conjunct2]
  note rest3 = rest2 [THEN conjunct2]
  note rest4 = rest3 [THEN conjunct2]
  note rest5 = rest4 [THEN conjunct2]
  have cover: "(\<Union>i<2. assigned 2 3 i) = {..<3}"
    using rest3 [THEN conjunct1] .
  have "\<forall>i<2. \<forall>j<2. i \<noteq> j \<longrightarrow> assigned 2 3 i \<inter> assigned 2 3 j = {}"
    using rest4 [THEN conjunct1] .
  then have disj: "assigned 2 3 0 \<inter> assigned 2 3 1 = {}" by simp
  have "plot_lc_table strptime_fixed (Some ''flux.fits'') (Some ''stats.fits'') (int 1)
                 (int 2) ''plots'' ?w
               = lc_rows strptime_fixed (example_ftab ?rs) example_stab ''plots''
                   (map (\<lambda>k. rows (example_ftab ?rs) ! k)
                      (filter (\<lambda>k. k \<in> assigned 2 (length (rows (example_ftab ?rs))) 1)
                         [0..<length (rows (example_ftab ?rs))])) ?w"
    using rest1 [THEN conjunct1, rule_format, of 1 ?w "example_ftab ?rs" example_stab]
      example_read_flux [of ?rs] example_read_stats [of ?rs] by simp
  then have worker: "plot_lc_table strptime_fixed (Some ''flux.fits'') (Some ''stats.fits'') 1 2
                 ''plots'' ?w
               = lc_rows strptime_fixed (example_ftab ?rs) example_stab ''plots'' [row_d] ?w"
    unfolding example_rows example_worker_rows by simp
  have "plot_lc_table_parallel strptime_fixed (Some ''flux.fits'') (Some ''stats.fits'')
                 ''plots'' (int 2) ?w
               = lc_rows strptime_fixed (example_ftab ?rs) example_stab ''plots''
                   (concat (map (\<lambda>i. map (\<lambda>k. rows (example_ftab ?rs) ! k)
                      (filter (\<lambda>k. k \<in> assigned 2 (length (rows (example_ftab ?rs))) i)
                         [0..<length (rows (example_ftab ?rs))]))
                    [0..<2])) ?w
             \<and> (\<forall>row\<in>set (rows (example_ftab ?rs)).
                   path_exists
                     (fst (plot_lc_table_parallel strptime_fixed (Some ''flux.fits'')
                             (Some ''stats.fits'') ''plots'' (int 2) ?w))
                     (lc_fname ''plots'' (uuid row)))"
    using rest5 [THEN conjunct2, THEN spec, THEN spec, THEN mp, THEN mp, THEN mp,
      OF example_read_flux [of ?rs] example_read_stats [of ?rs] good] .
  note run = this [unfolded example_rows example_workers list.map concat.simps append_Nil2
      example_worker_rows append.simps]
  have whole: "?par = lc_rows strptime_fixed (example_ftab ?rs) example_stab ''plots''
                             [row_a, row_e, row_d] ?w"
    using run [THEN conjunct1] by simp
  have "\<forall>row\<in>set ?rs. path_exists (fst ?par) (lc_fname ''plots'' (uuid row))"
    using run [THEN conjunct2] by simp
  then have paths: "path_exists (fst ?par) ''plots/a.png''"
      "path_exists (fst ?par) ''plots/d.png''" "path_exists (fst ?par) ''plots/e.png''"
    by (simp_all add: lc_fname_def example_uuids)
  have out: "stdout (fst (lc_rows strptime_fixed (example_ftab ?rs) example_stab ''plots''
                             [row_a, row_e, row_d] ?w))
       = [Print ''plots/a.png'', Print '' ... done\<newline>'',
          Print ''plots/e.png'', Print '' ... done\<newline>'',
          Print ''plots/d.png'', Print '' ... done\<newline>'']"
    by (simp add: lc_rows.simps(2) Let_def path_exists_def lc_fname_def example_uuids
        example_row_a example_row_d example_row_e savefig_def dir_exists_def example_dirnames
        example_dirs example_files_plots) (simp add: example_world_def)
  from h example_assigned cover disj worker whole paths out show ?thesis
    by (simp only:)
qed

section \<open>Examples of the summary and of the main blocks\<close>

lemma example_summary_run:
  "plot_summary_table (Some ''stats.fits'') (Some ''summary.png'') (example_world rs)
     = (write_file ''summary.png'' (SummaryFile example_summary) (example_world rs), None)"
  by (simp add: plot_summary_table_def example_read_stats example_summary_def example_stab_def
      stats_of_def np_log10_def savefig_def dir_exists_def example_dirnames example_dirs)

lemma plot_summary_table_all_rows:
  assumes "read_stats w f = Inr tab" and "p \<notin> dirs w" and "dir_exists w (dirname p)"
  shows "plot_summary_table f (Some p) w
           = (write_file p (SummaryFile \<lparr>points = map (\<lambda>r. (md r, np_log10 (pval_peak_flux r),
                                                        np_log10 (mean_peak_flux r))) tab\<rparr>) w,
              None)"
  using assms by (simp add: plot_summary_table_def savefig_def)

lemma select_stats_positive:
  "set (select_stats cur)
     = (\<lambda>r. (pval_peak_flux r, md r, \<bar>mean_peak_flux r\<bar>)) ` {r \<in> set cur. 0 < pval_peak_flux r}"
  by (auto simp add: select_stats_def)

text \<open>
  C2. The statistics table of the example has the p-values 0.5, -1, 0.001 and 0, and the
  mean flux -2 in its third row. \<^verbatim>\<open>plot_summary_table\<close> hands all four rows to the scatter
  call: the second with the ordinate not-a-number, the fourth with minus infinity, the
  third with the colour not-a-number. The query of \<^verbatim>\<open>plot_summary\<close> keeps the two rows with
  a positive p-value, with the absolute value of the mean flux.
\<close>

theorem summary_table_keeps_all_rows:
  "map pval_peak_flux example_stab = [0.5, - 1, 0.001, 0]
   \<and> map mean_peak_flux example_stab = [1, 1, - 2, 1]
   \<and> plot_summary_table (Some ''stats.fits'') (Some ''summary.png'') (example_world [])
       = (write_file ''summary.png''
            (SummaryFile \<lparr>points = [(0.02, Log10 0.5, Log10 1), (0.02, NaN, Log10 1),
                                    (0.02, Log10 0.001, NaN), (0.02, MinusInf, Log10 1)]\<rparr>)
            (example_world []), None)
   \<and> select_stats example_stab = [(0.5, 0.02, 1), (0.001, 0.02, 2)]"
  by (simp add: example_summary_run example_summary_def)
     (simp add: example_stab_def stats_of_def select_stats_def)

lemma example_cpu_count: "cpu_count (example_world rs) = 4"
  by (simp add: example_world_def)

theorem cores_default_witness:
  "cores example_args = None
   \<and> cpu_count (example_world [row_a, row_d]) = 4
   \<and> main strptime_fixed example_args (example_world [row_a, row_d])
       = main strptime_fixed (example_args\<lparr>cores := Some 4\<rparr>) (example_world [row_a, row_d])
   \<and> main strptime_fixed example_args (example_world [row_a, row_d])
       = (fst (plot_lc_table_parallel strptime_fixed (Some ''flux.fits'') (Some ''stats.fits'')
                 ''plots'' 4
                 (write_file ''summary.png'' (SummaryFile example_summary)
                    (example_world [row_a, row_d]))),
          Returned)"
proof -
  let ?w = "example_world [row_a, row_d]"
  let ?w2 = "write_file ''summary.png'' (SummaryFile example_summary) ?w"
  have c: "cores example_args = None"
    by (simp add: example_args_def)
  have t: "(truthy (ftable example_args) \<or> truthy (stable example_args)) \<and> all example_args
        \<and> plot_summary_table (stable example_args) (plotfile example_args)
             (if truthy (ftable example_args) \<and> truthy (stable example_args) then ?w
              else print error_message ?w) = (?w2, None)"
    by (simp add: example_args_def truthy_def example_summary_run)
  have r: "snd (plot_lc_table_parallel strptime_fixed (Some ''flux.fits'') (Some ''stats.fits'')
                 ''plots'' 4 ?w2) = None"
    by (simp add: plot_lc_table_parallel_returns)
  from cores_default [of example_args strptime_fixed ?w ?w2] c t
  have "main strptime_fixed example_args ?w
          = main strptime_fixed (example_args\<lparr>cores := Some (cpu_count ?w)\<rparr>) ?w"
    and "main strptime_fixed example_args ?w =
        (case plot_lc_table_parallel strptime_fixed (ftable example_args) (stable example_args)
                (light_curve_dir example_args)
                (case cores example_args of None \<Rightarrow> cpu_count ?w | Some n \<Rightarrow> n) ?w2 of
           (w3, Some e) \<Rightarrow> (w3, Raised e)
         | (w3, None) \<Rightarrow> (w3, Returned))"
    by blast+
  with c r show ?thesis
    by (simp add: example_cpu_count example_args_def split: prod.splits)
qed



theorem dbname_attribute_error_witness:
  "truthy (db dbname_args)
   \<and> db_main dbname_args (example_world [row_a, row_d])
       = (example_world [row_a, row_d], Raised AttributeError)"
proof -
  have h: "truthy (db dbname_args)"
    by (simp add: dbname_args_def truthy_def)
  from dbname_attribute_error [OF h] h show ?thesis by simp
qed

end
